theory Spec2Isabelle
  imports Main "HOL-Library.Word" "HOL-Library.Sublist"
begin

section \<open>Data model of \<open>src/mg_rpc/mg_rpc.c\<close>\<close>

text \<open>
  Strings (\<open>struct mg_str\<close>, a pointer and a length) are modelled by their bytes; the
  empty list stands for a string of length 0. Addresses of heap records and of transport
  objects, function pointers and opaque user pointers are natural numbers; a pointer that
  may be \<open>NULL\<close> is an \<open>option\<close>. \<open>int64_t\<close> is a 64-bit word, so that addition wraps.
\<close>

type_synonym i64 = "64 word"

record mg_rpc_cfg =
  cfg_id :: string
  cfg_max_queue_length :: int
  cfg_default_out_channel_idle_close_timeout :: int

text \<open>
  \<open>hi_method\<close>, \<open>hi_args_fmt\<close> and \<open>cfg_id\<close> are C strings (\<open>char *\<close>): they are read up to
  their first NUL, by \<open>c_str\<close> below.
\<close>

record mg_rpc_handler_info =
  hi_method :: string
  hi_args_fmt :: string
  hi_cb :: nat
  hi_cb_arg :: nat

text \<open>\<open>ci_ch\<close> is the address of the transport object \<open>struct mg_rpc_channel\<close>.\<close>

record mg_rpc_channel_info_internal =
  ci_dst :: string
  ci_ch :: nat
  is_open :: bool
  is_busy :: bool

record mg_rpc_sent_request_info =
  sri_id :: i64
  sri_cb :: nat
  sri_cb_arg :: nat

record mg_rpc_queue_entry =
  qe_dst :: string
  qe_frame :: string
  qe_ci :: "nat option"

record mg_rpc_observer_info =
  oi_cb :: nat
  oi_cb_arg :: nat

text \<open>
  Channel entries are shared: the channel list links them, queue entries pin them
  (\<open>qe->ci\<close>) and the functions pass them around by pointer. So the state holds them in a
  store: \<open>channels\<close> is the list of the addresses of the linked entries, in list order, and
  \<open>ci_mem\<close> is the memory these and all other such pointers point into. The other lists
  hold their records directly.
\<close>

record mg_rpc =
  cfg :: mg_rpc_cfg
  next_id :: i64
  queue_len :: int
  local_ids :: string
  prehandler :: "nat option"
  prehandler_arg :: nat
  handlers :: "mg_rpc_handler_info list"
  channels :: "nat list"
  ci_mem :: "nat \<Rightarrow> mg_rpc_channel_info_internal"
  requests :: "mg_rpc_sent_request_info list"
  observers :: "mg_rpc_observer_info list"
  queue :: "mg_rpc_queue_entry list"

text \<open>\<open>struct mg_rpc_frame\<close>, as \<open>mg_rpc_parse_frame\<close> fills it.\<close>

record mg_rpc_frame =
  frame_version :: int
  frame_id :: i64
  frame_src :: string
  frame_dst :: string
  frame_tag :: string
  frame_method :: string
  frame_args :: string
  frame_result :: string
  frame_error_code :: int
  frame_error_msg :: string
  frame_auth :: string

text \<open>\<open>struct mg_rpc_request_info\<close>, as \<open>mg_rpc_handle_request\<close> fills it.\<close>

record mg_rpc_request_info =
  ri_id :: i64
  ri_src :: string
  ri_dst :: string
  ri_tag :: string
  ri_auth :: string
  ri_method :: string
  ri_ch :: nat
  ri_args_fmt :: string

record mg_rpc_call_opts =
  opts_src :: string
  opts_dst :: string
  opts_tag :: string
  opts_key :: string
  opts_no_queue :: bool
  opts_broadcast :: bool

subsection \<open>The JSON scanner's tokens\<close>

datatype json_token_type = JSON_TYPE_INVALID | JSON_TYPE_STRING | JSON_TYPE_OTHER

text \<open>
  A \<open>struct json_token\<close> is a span of the scanned buffer: \<open>tok_ptr\<close> is the offset of its
  first byte (\<open>None\<close> is the \<open>NULL\<close> of a zeroed token).
\<close>

record json_token =
  tok_ptr :: "int option"
  tok_len :: int
  tok_type :: json_token_type

definition zero_token :: json_token where
  "zero_token = \<lparr>tok_ptr = None, tok_len = 0, tok_type = JSON_TYPE_INVALID\<rparr>"

text \<open>
  What one call of \<open>json_scanf\<close> with the frame format stores: for each of the eleven
  conversions, the value written through the corresponding pointer, or \<open>None\<close> when the
  key was not recognised and the target was left untouched.
\<close>

record scanned =
  sc_v :: "int option"
  sc_id :: "i64 option"
  sc_src :: "json_token option"
  sc_dst :: "json_token option"
  sc_tag :: "json_token option"
  sc_method :: "json_token option"
  sc_args :: "json_token option"
  sc_auth :: "json_token option"
  sc_result :: "json_token option"
  sc_error_code :: "int option"
  sc_error_msg :: "json_token option"

subsection \<open>Effects and the environment\<close>

text \<open>
  Calls that leave the multiplexer are recorded, in order, as effects: calls of the
  transport's methods, of the user's callbacks and of the error log.
\<close>

datatype mg_rpc_event = MG_RPC_EV_CHANNEL_OPEN | MG_RPC_EV_CHANNEL_CLOSED

datatype effect =
    SendFrame nat string bool
  | ChConnect nat
  | ChClose nat
  | ChDestroy nat
  | ResultCb nat nat string int string
  | PrehandlerCb nat nat mg_rpc_request_info string bool
  | HandlerCb nat nat mg_rpc_request_info string
  | ObserverCb nat nat mg_rpc_event string
  | LogError string

text \<open>The components of a URI, as \<open>mg_parse_uri\<close> returns them.\<close>

record uri =
  uri_scheme :: string
  uri_user_info :: string
  uri_host :: string
  uri_port :: nat
  uri_path :: string
  uri_query :: string
  uri_fragment :: string

text \<open>
  Everything the file calls and does not define is a parameter: the JSON scanner and
  printer, the URI functions of the networking library, the C library and the methods of
  the transports. The functions with effects or with results that may vary from call to
  call thread a world \<open>'w\<close>, which the multiplexer never inspects.
  \<open>env_dst_default\<close> is the macro \<open>MG_RPC_DST_DEFAULT\<close>.
\<close>

record 'w env =
  env_json_scanf :: "string \<Rightarrow> scanned"
  env_json_quote :: "string \<Rightarrow> string"
  env_fmt_lld :: "i64 \<Rightarrow> string"
  env_fmt_d :: "int \<Rightarrow> string"
  env_parse_uri :: "string \<Rightarrow> uri option"
  env_assemble_uri :: "string \<Rightarrow> string \<Rightarrow> string \<Rightarrow> nat \<Rightarrow> string \<Rightarrow> string \<Rightarrow> string option"
  env_dst_default :: string
  env_rand :: "'w \<Rightarrow> int \<times> 'w"
  env_calloc :: "'w \<Rightarrow> nat \<times> 'w"
  env_channel_ws_out :: "'w \<Rightarrow> string \<Rightarrow> string \<Rightarrow> int \<Rightarrow> nat option \<times> 'w"
  env_send_frame :: "'w \<Rightarrow> nat \<Rightarrow> string \<Rightarrow> bool \<times> 'w"
  env_is_persistent :: "'w \<Rightarrow> nat \<Rightarrow> bool"
  env_is_broadcast_enabled :: "'w \<Rightarrow> nat \<Rightarrow> bool option"
  env_prehandler :: "'w \<Rightarrow> nat \<Rightarrow> nat \<Rightarrow> mg_rpc_request_info \<Rightarrow> string \<Rightarrow> bool \<times> 'w"

section \<open>Frame parsing\<close>

text \<open>
  The value \<open>json_scanf\<close> returns: the number of conversions it stored.
\<close>

definition opt_count :: "'a option \<Rightarrow> int" where
  "opt_count x = (case x of None \<Rightarrow> 0 | Some _ \<Rightarrow> 1)"

definition json_scanf_ret :: "scanned \<Rightarrow> int" where
  "json_scanf_ret sc =
     opt_count (sc_v sc) + opt_count (sc_id sc) + opt_count (sc_src sc) +
     opt_count (sc_dst sc) + opt_count (sc_tag sc) + opt_count (sc_method sc) +
     opt_count (sc_args sc) + opt_count (sc_auth sc) + opt_count (sc_result sc) +
     opt_count (sc_error_code sc) + opt_count (sc_error_msg sc)"

text \<open>\<open>mg_mk_str_n(ptr, len)\<close>, read in the buffer the token points into.\<close>

definition mg_mk_str_n :: "string \<Rightarrow> int option \<Rightarrow> int \<Rightarrow> string" where
  "mg_mk_str_n buf p n =
     (case p of None \<Rightarrow> [] | Some i \<Rightarrow> take (nat n) (drop (nat i) buf))"

text \<open>A target that was zeroed by \<open>memset\<close> and then perhaps written by the scanner.\<close>

definition tok_or_zero :: "json_token option \<Rightarrow> json_token" where
  "tok_or_zero t = (case t of None \<Rightarrow> zero_token | Some k \<Rightarrow> k)"

definition num_or_zero :: "'a::zero option \<Rightarrow> 'a" where
  "num_or_zero x = (case x of None \<Rightarrow> 0 | Some k \<Rightarrow> k)"

text \<open>The widening of a string-typed \<open>result\<close> token, so that it includes its quotes.\<close>

definition widen_result :: "json_token \<Rightarrow> json_token" where
  "widen_result r =
     (if tok_type r = JSON_TYPE_STRING
      then r\<lparr>tok_ptr := map_option (\<lambda>i. i - 1) (tok_ptr r), tok_len := tok_len r + 2\<rparr>
      else r)"

definition mg_rpc_parse_frame :: "'w env \<Rightarrow> string \<Rightarrow> mg_rpc_frame option" where
  "mg_rpc_parse_frame env f =
     (let sc = env_json_scanf env f in
      if json_scanf_ret sc < 1 then None
      else
        let src = tok_or_zero (sc_src sc);
            dst = tok_or_zero (sc_dst sc);
            tag = tok_or_zero (sc_tag sc);
            method = tok_or_zero (sc_method sc);
            args = tok_or_zero (sc_args sc);
            auth = tok_or_zero (sc_auth sc);
            result = widen_result (tok_or_zero (sc_result sc));
            error_msg = tok_or_zero (sc_error_msg sc)
        in Some \<lparr>frame_version = num_or_zero (sc_v sc),
                 frame_id = num_or_zero (sc_id sc),
                 frame_src = mg_mk_str_n f (tok_ptr src) (tok_len src),
                 frame_dst = mg_mk_str_n f (tok_ptr dst) (tok_len dst),
                 frame_tag = mg_mk_str_n f (tok_ptr tag) (tok_len tag),
                 frame_method = mg_mk_str_n f (tok_ptr method) (tok_len method),
                 frame_args = mg_mk_str_n f (tok_ptr args) (tok_len args),
                 frame_result = mg_mk_str_n f (tok_ptr result) (tok_len result),
                 frame_error_code = num_or_zero (sc_error_code sc),
                 frame_error_msg = mg_mk_str_n f (tok_ptr error_msg) (tok_len error_msg),
                 frame_auth = mg_mk_str_n f (tok_ptr auth) (tok_len auth)\<rparr>)"

section \<open>Local identities\<close>

text \<open>
  \<open>c->local_ids\<close> is a byte buffer holding the identities one after the other, each
  followed by a NUL. \<open>is_local_id\<close> walks it: the argument \<open>buf\<close> of the loop function is
  the part of the buffer from offset \<open>i\<close> on.
\<close>

abbreviation NUL :: char where
  "NUL \<equiv> CHR 0x00"

definition c_str :: "string \<Rightarrow> string" where
  "c_str buf = takeWhile (\<lambda>x. x \<noteq> NUL) buf"

function is_local_id_loop :: "string \<Rightarrow> string \<Rightarrow> bool" where
  "is_local_id_loop buf ident =
     (if buf = [] then False
      else if ident = c_str buf then True
      else is_local_id_loop (drop (length (c_str buf) + 1) buf) ident)"
  by pat_completeness auto
termination
  by (relation "measure (\<lambda>(buf, ident). length buf)") auto

declare is_local_id_loop.simps [simp del]

definition is_local_id :: "mg_rpc \<Rightarrow> string \<Rightarrow> bool" where
  "is_local_id c ident = is_local_id_loop (local_ids c) ident"

definition mg_rpc_add_local_id :: "mg_rpc \<Rightarrow> string \<Rightarrow> mg_rpc" where
  "mg_rpc_add_local_id c ident =
     (if ident = [] then c else c\<lparr>local_ids := local_ids c @ ident @ [NUL]\<rparr>)"

section \<open>Channel registry and destination resolution\<close>

text \<open>Writing a channel entry through its address.\<close>

definition ci_update ::
  "mg_rpc \<Rightarrow> nat \<Rightarrow> (mg_rpc_channel_info_internal \<Rightarrow> mg_rpc_channel_info_internal) \<Rightarrow> mg_rpc" where
  "ci_update c p g = c\<lparr>ci_mem := (ci_mem c)(p := g (ci_mem c p))\<rparr>"

text \<open>\<open>mg_rpc_get_channel_info_internal\<close>: the first entry bound to the transport \<open>ch\<close>.\<close>

definition mg_rpc_get_channel_info_internal :: "mg_rpc \<Rightarrow> nat \<Rightarrow> nat option" where
  "mg_rpc_get_channel_info_internal c ch = find (\<lambda>p. ci_ch (ci_mem c p) = ch) (channels c)"

definition canonicalize_dst_uri :: "'w env \<Rightarrow> uri \<Rightarrow> string option" where
  "canonicalize_dst_uri env u =
     env_assemble_uri env (uri_scheme u) (uri_user_info u) (uri_host u) (uri_port u)
       (uri_path u) (uri_query u)"

definition dst_is_equal :: "'w env \<Rightarrow> string \<Rightarrow> string \<Rightarrow> bool" where
  "dst_is_equal env d1 d2 =
     (case (env_parse_uri env d1, env_parse_uri env d2) of
        (None, None) \<Rightarrow> d1 = d2
      | (Some u1, Some u2) \<Rightarrow>
          (case canonicalize_dst_uri env u1 of
             None \<Rightarrow> False
           | Some c1 \<Rightarrow>
               (case canonicalize_dst_uri env u2 of
                  None \<Rightarrow> False
                | Some c2 \<Rightarrow> c1 = c2))
      | _ \<Rightarrow> False)"

text \<open>
  \<open>mg_rpc_add_channel_internal\<close>; the entry comes from \<open>calloc\<close>, so both flags start
  false.
\<close>

definition mg_rpc_add_channel_internal ::
  "'w env \<Rightarrow> mg_rpc \<Rightarrow> string \<Rightarrow> nat \<Rightarrow> 'w \<Rightarrow> nat \<times> mg_rpc \<times> 'w" where
  "mg_rpc_add_channel_internal env c dst ch w =
     (let (p, w1) = env_calloc env w;
          ci = \<lparr>ci_dst = dst, ci_ch = ch, is_open = False, is_busy = False\<rparr>
      in (p, c\<lparr>ci_mem := (ci_mem c)(p := ci), channels := p # channels c\<rparr>, w1))"

definition mg_rpc_add_channel :: "'w env \<Rightarrow> mg_rpc \<Rightarrow> string \<Rightarrow> nat \<Rightarrow> 'w \<Rightarrow> mg_rpc \<times> 'w" where
  "mg_rpc_add_channel env c dst ch w =
     (let (p, c1, w1) = mg_rpc_add_channel_internal env c dst ch w in (c1, w1))"

text \<open>
  The scan of the channel list in \<open>mg_rpc_get_channel_info_internal_by_dst\<close>: \<open>Inl p\<close>
  is the jump to \<open>out\<close> with the entry at \<open>p\<close>, \<open>Inr d\<close> the end of the list with the
  default entry \<open>d\<close> remembered last.
\<close>

fun by_dst_scan ::
  "'w env \<Rightarrow> (nat \<Rightarrow> mg_rpc_channel_info_internal) \<Rightarrow> string \<Rightarrow> nat list \<Rightarrow> nat option
     \<Rightarrow> nat + nat option" where
  "by_dst_scan env mem dst [] default_ch = Inr default_ch"
| "by_dst_scan env mem dst (ci # cis) default_ch =
     (if dst \<noteq> [] \<and> dst_is_equal env dst (ci_dst (mem ci)) then Inl ci
      else by_dst_scan env mem dst cis
             (if ci_dst (mem ci) = env_dst_default env then Some ci else default_ch))"

definition is_ws_scheme :: "string \<Rightarrow> bool" where
  "is_ws_scheme s = (s = ''ws'' \<or> s = ''wss'' \<or> s = ''http'' \<or> s = ''https'')"

text \<open>
  \<open>mg_rpc_get_channel_info_internal_by_dst\<close>. The result is the entry found or created
  (\<open>None\<close> is \<open>NULL\<close>), the destination as the caller sees it afterwards (blanked for a
  URI), the state, the world and the effects. The settings read from the URI fragment
  only configure the new transport: the fragment is handed to \<open>env_channel_ws_out\<close>
  together with the canonical address and the default idle timeout.
\<close>

definition mg_rpc_get_channel_info_internal_by_dst ::
  "'w env \<Rightarrow> mg_rpc \<Rightarrow> string \<Rightarrow> 'w \<Rightarrow> nat option \<times> string \<times> mg_rpc \<times> 'w \<times> effect list" where
  "mg_rpc_get_channel_info_internal_by_dst env c dst w =
     (let pu = (if dst \<noteq> [] then env_parse_uri env dst else None);
          is_uri = (case pu of None \<Rightarrow> False | Some u \<Rightarrow> uri_scheme u \<noteq> []);
          dst_out = (if is_uri then [] else dst)
      in case by_dst_scan env (ci_mem c) dst (channels c) None of
           Inl p \<Rightarrow> (Some p, dst_out, c, w, [])
         | Inr default_ch \<Rightarrow>
             (case pu of
                None \<Rightarrow> (default_ch, dst_out, c, w, [])
              | Some u \<Rightarrow>
                  if \<not> is_uri then (default_ch, dst_out, c, w, [])
                  else if is_ws_scheme (uri_scheme u) then
                    (let canon_dst = (case canonicalize_dst_uri env u of None \<Rightarrow> [] | Some s \<Rightarrow> s);
                         (cho, w1) = env_channel_ws_out env w canon_dst (uri_fragment u)
                                       (cfg_default_out_channel_idle_close_timeout (cfg c))
                     in case cho of
                          None \<Rightarrow>
                            (None, dst_out, c, w1, [LogError ''Failed to create RPC channel''])
                        | Some ch \<Rightarrow>
                            (let (p, c1, w2) = mg_rpc_add_channel_internal env c canon_dst ch w1
                             in (Some p, dst_out, c1, w2, [ChConnect ch])))
                  else (None, dst_out, c, w, [LogError ''Unsupported connection scheme''])))"

section \<open>Sending and queueing\<close>

definition mg_rpc_send_frame ::
  "'w env \<Rightarrow> mg_rpc \<Rightarrow> nat option \<Rightarrow> string \<Rightarrow> 'w \<Rightarrow> bool \<times> mg_rpc \<times> 'w \<times> effect list" where
  "mg_rpc_send_frame env c ci f w =
     (case ci of
        None \<Rightarrow> (False, c, w, [])
      | Some p \<Rightarrow>
          if \<not> is_open (ci_mem c p) \<or> is_busy (ci_mem c p) then (False, c, w, [])
          else
            (let (result, w1) = env_send_frame env w (ci_ch (ci_mem c p)) f
             in (result,
                 (if result then ci_update c p (\<lambda>x. x\<lparr>is_busy := True\<rparr>) else c),
                 w1, [SendFrame (ci_ch (ci_mem c p)) f result])))"

definition mg_rpc_enqueue_frame ::
  "mg_rpc \<Rightarrow> nat option \<Rightarrow> string \<Rightarrow> string \<Rightarrow> bool \<times> mg_rpc" where
  "mg_rpc_enqueue_frame c ci dst f =
     (if queue_len c \<ge> cfg_max_queue_length (cfg c) then (False, c)
      else (True, c\<lparr>queue := queue c @ [\<lparr>qe_dst = dst, qe_frame = f, qe_ci = ci\<rparr>],
                    queue_len := queue_len c + 1\<rparr>))"

text \<open>
  \<open>mg_rpc_remove_queue_entry\<close>; the node \<open>qe\<close> is given by its position in the queue.
\<close>

definition mg_rpc_remove_queue_entry :: "mg_rpc \<Rightarrow> nat \<Rightarrow> mg_rpc" where
  "mg_rpc_remove_queue_entry c i =
     c\<lparr>queue := take i (queue c) @ drop (Suc i) (queue c), queue_len := queue_len c - 1\<rparr>"

text \<open>
  The text \<open>mg_rpc_dispatch_frame\<close> assembles. \<open>payload\<close> is what \<open>json_vprintf\<close> renders
  from \<open>payload_jsonf\<close> and its arguments (\<open>None\<close> when the format is \<open>NULL\<close>). The printer
  writes \<open>null\<close> for the \<open>%Q\<close> of a \<open>NULL\<close> string, which \<open>c->local_ids.buf\<close> is as long as
  the buffer is empty.
\<close>

definition frame_text ::
  "'w env \<Rightarrow> mg_rpc \<Rightarrow> string \<Rightarrow> string \<Rightarrow> i64 \<Rightarrow> string \<Rightarrow> string \<Rightarrow> string \<Rightarrow> string option
     \<Rightarrow> string" where
  "frame_text env c src final_dst ident tag key payload_prefix_json payload =
     ''{'' @
     (if ident \<noteq> 0 then ''\"id\":'' @ env_fmt_lld env ident @ '','' else []) @
     ''\"src\":'' @
     (if src \<noteq> [] then env_json_quote env src
      else if local_ids c = [] then ''null''
      else env_json_quote env (c_str (local_ids c))) @
     (if final_dst \<noteq> [] then '',\"dst\":'' @ env_json_quote env final_dst else []) @
     (if tag \<noteq> [] then '',\"tag\":'' @ env_json_quote env tag else []) @
     (if key \<noteq> [] then '',\"key\":'' @ env_json_quote env key else []) @
     (if payload_prefix_json \<noteq> [] then '','' @ payload_prefix_json else []) @
     (case payload of None \<Rightarrow> [] | Some s \<Rightarrow> s) @
     ''}''"

definition mg_rpc_dispatch_frame ::
  "'w env \<Rightarrow> mg_rpc \<Rightarrow> string \<Rightarrow> string \<Rightarrow> i64 \<Rightarrow> string \<Rightarrow> string \<Rightarrow> nat option \<Rightarrow> bool
     \<Rightarrow> string \<Rightarrow> string option \<Rightarrow> 'w \<Rightarrow> bool \<times> mg_rpc \<times> 'w \<times> effect list" where
  "mg_rpc_dispatch_frame env c src dst ident tag key ci enqueue payload_prefix_json payload w =
     (let (ci1, final_dst, c1, w1, t1) =
            (case ci of
               None \<Rightarrow> mg_rpc_get_channel_info_internal_by_dst env c dst w
             | Some p \<Rightarrow> (Some p, dst, c, w, []));
          f = frame_text env c1 src final_dst ident tag key payload_prefix_json payload;
          (sent, c2, w2, t2) = mg_rpc_send_frame env c1 ci1 f w1
      in if sent then (True, c2, w2, t1 @ t2)
         else if enqueue then
           (let (queued, c3) = mg_rpc_enqueue_frame c2 ci1 dst f
            in (queued, c3, w2, t1 @ t2))
         else (False, c2, w2, t1 @ t2))"

text \<open>
  The body of the loop of \<open>mg_rpc_process_queue\<close> for the node \<open>qe\<close>: resolve the channel,
  try to send, and report whether the send succeeded.
\<close>

definition process_queue_entry ::
  "'w env \<Rightarrow> mg_rpc_queue_entry \<Rightarrow> mg_rpc \<Rightarrow> 'w \<Rightarrow> bool \<times> mg_rpc \<times> 'w \<times> effect list" where
  "process_queue_entry env qe c w =
     (let (ci, c1, w1, t1) =
            (case qe_ci qe of
               None \<Rightarrow>
                 (let (r, d, c', w', t) = mg_rpc_get_channel_info_internal_by_dst env c (qe_dst qe) w
                  in (r, c', w', t))
             | Some p \<Rightarrow> (Some p, c, w, []));
          (sent, c2, w2, t2) = mg_rpc_send_frame env c1 ci (qe_frame qe) w1
      in (sent, c2, w2, t1 @ t2))"

text \<open>
  \<open>STAILQ_FOREACH_SAFE\<close> over the queue: the nodes still to visit are those the queue held
  when the loop started, \<open>i\<close> is the position of the current node in the queue as it is
  now.
\<close>

fun process_queue_loop ::
  "'w env \<Rightarrow> nat \<Rightarrow> mg_rpc_queue_entry list \<Rightarrow> mg_rpc \<Rightarrow> 'w \<Rightarrow> mg_rpc \<times> 'w \<times> effect list" where
  "process_queue_loop env i [] c w = (c, w, [])"
| "process_queue_loop env i (qe # rest) c w =
     (case process_queue_entry env qe c w of
        (sent, c2, w2, t2) \<Rightarrow>
          (case (if sent then process_queue_loop env i rest (mg_rpc_remove_queue_entry c2 i) w2
                 else process_queue_loop env (Suc i) rest c2 w2) of
             (c3, w3, t3) \<Rightarrow> (c3, w3, t2 @ t3)))"

definition mg_rpc_process_queue :: "'w env \<Rightarrow> mg_rpc \<Rightarrow> 'w \<Rightarrow> mg_rpc \<times> 'w \<times> effect list" where
  "mg_rpc_process_queue env c w = process_queue_loop env 0 (queue c) c w"

section \<open>Responses and errors sent by handlers\<close>

definition mg_rpc_send_responsef ::
  "'w env \<Rightarrow> mg_rpc \<Rightarrow> mg_rpc_request_info \<Rightarrow> string option \<Rightarrow> 'w
     \<Rightarrow> bool \<times> mg_rpc \<times> 'w \<times> effect list" where
  "mg_rpc_send_responsef env c ri result_json w =
     (let payload = (case result_json of None \<Rightarrow> ''null'' | Some s \<Rightarrow> s);
          ci = mg_rpc_get_channel_info_internal c (ri_ch ri)
      in mg_rpc_dispatch_frame env c (ri_dst ri) (ri_src ri) (ri_id ri) (ri_tag ri) [] ci True
           ''\"result\":'' (Some payload) w)"

text \<open>
  \<open>send_errorf\<close>; \<open>msg\<close> is the rendered message (\<open>None\<close> when the format is \<open>NULL\<close>), which
  is written when its length is positive. The two public variants differ in the renderer
  only.
\<close>

definition send_errorf ::
  "'w env \<Rightarrow> mg_rpc \<Rightarrow> mg_rpc_request_info \<Rightarrow> int \<Rightarrow> string option \<Rightarrow> 'w
     \<Rightarrow> bool \<times> mg_rpc \<times> 'w \<times> effect list" where
  "send_errorf env c ri error_code msg w =
     (let prefb = ''\"error\":{\"code\":'' @ env_fmt_d env error_code @
                  (case msg of
                     None \<Rightarrow> []
                   | Some m \<Rightarrow> if m \<noteq> [] then '',\"message\":'' @ env_json_quote env m else []) @
                  ''}'';
          ci = mg_rpc_get_channel_info_internal c (ri_ch ri)
      in mg_rpc_dispatch_frame env c (ri_dst ri) (ri_src ri) (ri_id ri) (ri_tag ri) [] ci True
           prefb None w)"

definition mg_rpc_send_errorf ::
  "'w env \<Rightarrow> mg_rpc \<Rightarrow> mg_rpc_request_info \<Rightarrow> int \<Rightarrow> string option \<Rightarrow> 'w
     \<Rightarrow> bool \<times> mg_rpc \<times> 'w \<times> effect list" where
  "mg_rpc_send_errorf env c ri error_code msg w = send_errorf env c ri error_code msg w"

definition mg_rpc_send_error_jsonf ::
  "'w env \<Rightarrow> mg_rpc \<Rightarrow> mg_rpc_request_info \<Rightarrow> int \<Rightarrow> string option \<Rightarrow> 'w
     \<Rightarrow> bool \<times> mg_rpc \<times> 'w \<times> effect list" where
  "mg_rpc_send_error_jsonf env c ri error_code msg w = send_errorf env c ri error_code msg w"

section \<open>Inbound frames\<close>

definition mg_rpc_handle_request ::
  "'w env \<Rightarrow> mg_rpc \<Rightarrow> nat \<Rightarrow> mg_rpc_frame \<Rightarrow> 'w
     \<Rightarrow> bool \<times> mg_rpc \<times> 'w \<times> effect list" where
  "mg_rpc_handle_request env c ci frame w =
     (let ri = \<lparr>ri_id = frame_id frame, ri_src = frame_src frame, ri_dst = frame_dst frame,
                ri_tag = frame_tag frame, ri_auth = frame_auth frame,
                ri_method = frame_method frame, ri_ch = ci_ch (ci_mem c ci), ri_args_fmt = []\<rparr>
      in case find (\<lambda>hi. ri_method ri = c_str (hi_method hi)) (handlers c) of
           None \<Rightarrow>
             (let (r, c1, w1, t) =
                    mg_rpc_send_errorf env c ri 404
                      (Some (''No handler for '' @ c_str (frame_method frame))) w
              in (True, c1, w1, LogError ''No handler for'' # t))
         | Some hi \<Rightarrow>
             (let ri1 = ri\<lparr>ri_args_fmt := hi_args_fmt hi\<rparr>;
                  (ok, w1, t1) =
                    (case prehandler c of
                       None \<Rightarrow> (True, w, [])
                     | Some ph \<Rightarrow>
                         (let (r, w') = env_prehandler env w ph (prehandler_arg c) ri1
                                          (frame_args frame)
                          in (r, w', [PrehandlerCb ph (prehandler_arg c) ri1 (frame_args frame) r])))
              in (True, c, w1,
                  t1 @ (if ok then [HandlerCb (hi_cb hi) (hi_cb_arg hi) ri1 (frame_args frame)]
                        else []))))"

definition mg_rpc_handle_response ::
  "mg_rpc \<Rightarrow> i64 \<Rightarrow> string \<Rightarrow> int \<Rightarrow> string \<Rightarrow> bool \<times> mg_rpc \<times> effect list" where
  "mg_rpc_handle_response c ident result error_code error_msg =
     (if ident = 0 then (False, c, [LogError ''Response without an ID''])
      else
        (case find (\<lambda>ri. sri_id ri = ident) (requests c) of
           None \<Rightarrow> (True, c, [])
         | Some ri \<Rightarrow>
             (True, c\<lparr>requests := remove1 ri (requests c)\<rparr>,
              [ResultCb (sri_cb ri) (sri_cb_arg ri) result error_code error_msg])))"

definition mg_rpc_handle_frame ::
  "'w env \<Rightarrow> mg_rpc \<Rightarrow> nat \<Rightarrow> mg_rpc_frame \<Rightarrow> 'w
     \<Rightarrow> bool \<times> mg_rpc \<times> 'w \<times> effect list" where
  "mg_rpc_handle_frame env c ci frame w =
     (if \<not> is_open (ci_mem c ci)
      then (False, c, w, [LogError ''Ignored frame from closed channel''])
      else if frame_dst frame \<noteq> [] \<and> \<not> is_local_id c (frame_dst frame)
      then (False, c, w, [LogError ''Wrong dst''])
      else
        (let c1 = (if ci_dst (ci_mem c ci) = []
                   then ci_update c ci (\<lambda>e. e\<lparr>ci_dst := frame_src frame\<rparr>)
                   else c)
         in if frame_method frame \<noteq> [] then mg_rpc_handle_request env c1 ci frame w
            else
              (let (ok, c2, t) =
                     mg_rpc_handle_response c1 (frame_id frame) (frame_result frame)
                       (frame_error_code frame) (frame_error_msg frame)
               in (ok, c2, w, t))))"

section \<open>Channel events\<close>

datatype mg_rpc_channel_event =
    MG_RPC_CHANNEL_OPEN
  | MG_RPC_CHANNEL_FRAME_RECD string
  | MG_RPC_CHANNEL_FRAME_RECD_PARSED mg_rpc_frame
  | MG_RPC_CHANNEL_FRAME_SENT int
  | MG_RPC_CHANNEL_CLOSED

definition mg_rpc_call_observers :: "mg_rpc \<Rightarrow> mg_rpc_event \<Rightarrow> string \<Rightarrow> effect list" where
  "mg_rpc_call_observers c ev ev_arg =
     map (\<lambda>oi. ObserverCb (oi_cb oi) (oi_cb_arg oi) ev ev_arg) (observers c)"

text \<open>
  The loop of the \<open>CLOSED\<close> case that drops the queue entries pinned to the entry at
  \<open>p\<close>; positions as in \<open>process_queue_loop\<close>.
\<close>

fun purge_queue_loop :: "nat \<Rightarrow> nat \<Rightarrow> mg_rpc_queue_entry list \<Rightarrow> mg_rpc \<Rightarrow> mg_rpc" where
  "purge_queue_loop p i [] c = c"
| "purge_queue_loop p i (qe # rest) c =
     (if qe_ci qe = Some p then purge_queue_loop p i rest (mg_rpc_remove_queue_entry c i)
      else purge_queue_loop p (Suc i) rest c)"

text \<open>The failure branch shared by the two \<open>FRAME_RECD\<close> cases.\<close>

definition close_if_not_persistent :: "'w env \<Rightarrow> 'w \<Rightarrow> nat \<Rightarrow> effect list" where
  "close_if_not_persistent env w ch = (if \<not> env_is_persistent env w ch then [ChClose ch] else [])"

text \<open>An entry after \<open>memset(ci, 0, sizeof(*ci))\<close>.\<close>

definition zero_ci :: mg_rpc_channel_info_internal where
  "zero_ci = \<lparr>ci_dst = [], ci_ch = 0, is_open = False, is_busy = False\<rparr>"

text \<open>
  In the \<open>CLOSED\<close> case \<open>SLIST_REMOVE\<close> unlinks the node at \<open>ci\<close>; a node is linked at most
  once, so no occurrence of its address stays in the list.
\<close>

definition mg_rpc_ev_handler ::
  "'w env \<Rightarrow> mg_rpc \<Rightarrow> nat \<Rightarrow> mg_rpc_channel_event \<Rightarrow> 'w \<Rightarrow> mg_rpc \<times> 'w \<times> effect list" where
  "mg_rpc_ev_handler env c ch ev w =
     (case find (\<lambda>p. ci_ch (ci_mem c p) = ch) (channels c) of
        None \<Rightarrow> (c, w, [])
      | Some ci \<Rightarrow>
          (case ev of
             MG_RPC_CHANNEL_OPEN \<Rightarrow>
               (let c1 = ci_update c ci (\<lambda>e. e\<lparr>is_open := True, is_busy := False\<rparr>);
                    (c2, w2, t2) = mg_rpc_process_queue env c1 w
                in (c2, w2,
                    t2 @ (if ci_dst (ci_mem c2 ci) \<noteq> []
                          then mg_rpc_call_observers c2 MG_RPC_EV_CHANNEL_OPEN (ci_dst (ci_mem c2 ci))
                          else [])))
           | MG_RPC_CHANNEL_FRAME_RECD f \<Rightarrow>
               (case mg_rpc_parse_frame env f of
                  None \<Rightarrow> (c, w, LogError ''INVALID FRAME'' # close_if_not_persistent env w ch)
                | Some frame \<Rightarrow>
                    (let (ok, c1, w1, t1) = mg_rpc_handle_frame env c ci frame w
                     in if ok then (c1, w1, t1)
                        else (c1, w1,
                              t1 @ LogError ''INVALID FRAME'' # close_if_not_persistent env w1 ch)))
           | MG_RPC_CHANNEL_FRAME_RECD_PARSED frame \<Rightarrow>
               (let (ok, c1, w1, t1) = mg_rpc_handle_frame env c ci frame w
                in if ok then (c1, w1, t1)
                   else (c1, w1,
                         t1 @ LogError ''INVALID PARSED FRAME'' # close_if_not_persistent env w1 ch))
           | MG_RPC_CHANNEL_FRAME_SENT success \<Rightarrow>
               (let c1 = ci_update c ci (\<lambda>e. e\<lparr>is_busy := False\<rparr>)
                in mg_rpc_process_queue env c1 w)
           | MG_RPC_CHANNEL_CLOSED \<Rightarrow>
               (let remove = \<not> env_is_persistent env w ch;
                    c1 = ci_update c ci (\<lambda>e. e\<lparr>is_open := False, is_busy := False\<rparr>);
                    t1 = (if ci_dst (ci_mem c1 ci) \<noteq> []
                          then mg_rpc_call_observers c1 MG_RPC_EV_CHANNEL_CLOSED
                                 (ci_dst (ci_mem c1 ci))
                          else [])
                in if remove then
                     (let c2 = purge_queue_loop ci 0 (queue c1) c1;
                          c3 = c2\<lparr>channels := removeAll ci (channels c2)\<rparr>;
                          c4 = ci_update c3 ci (\<lambda>e. zero_ci)
                      in (c4, w, t1 @ [ChDestroy ch]))
                   else (c1, w, t1))))"

section \<open>Outgoing calls\<close>

text \<open>
  Reading or writing a field through a \<open>NULL\<close> pointer is an error value of the model;
  it names the pointer.
\<close>

datatype error = NullPointerDereference string

text \<open>
  \<open>calloc\<close> returns the address 0 for \<open>NULL\<close>, and the file writes through its result
  untested. On the way of a call that happens in three places: the request record \<open>ri\<close>
  in \<open>mg_rpc_vcallf\<close> itself, the channel entry \<open>ci\<close> in \<open>mg_rpc_add_channel_internal\<close>,
  which \<open>mg_rpc_get_channel_info_internal_by_dst\<close> calls once \<open>mg_rpc_channel_ws_out\<close> has
  made a transport for a destination URI, and the queue entry \<open>qe\<close> in
  \<open>mg_rpc_enqueue_frame\<close>, once the queue is known to have room. The functions of the
  sections above give the state of the run that goes on; the functions here say where a
  run ends instead. Everything else a call reads through is there: the configuration
  since \<open>mg_rpc_create\<close>, the entries of the channel list and their transports, and the
  methods of a transport, of which the file tests the one that may be missing,
  \<open>is_broadcast_enabled\<close>.
\<close>

definition add_channel_internal_fault :: "'w env \<Rightarrow> 'w \<Rightarrow> error option" where
  "add_channel_internal_fault env w =
     (if fst (env_calloc env w) = 0 then Some (NullPointerDereference ''ci'') else None)"

definition by_dst_fault :: "'w env \<Rightarrow> mg_rpc \<Rightarrow> string \<Rightarrow> 'w \<Rightarrow> error option" where
  "by_dst_fault env c dst w =
     (let pu = (if dst \<noteq> [] then env_parse_uri env dst else None)
      in case by_dst_scan env (ci_mem c) dst (channels c) None of
           Inl p \<Rightarrow> None
         | Inr default_ch \<Rightarrow>
             (case pu of
                None \<Rightarrow> None
              | Some u \<Rightarrow>
                  if uri_scheme u \<noteq> [] \<and> is_ws_scheme (uri_scheme u) then
                    (let canon_dst = (case canonicalize_dst_uri env u of None \<Rightarrow> [] | Some s \<Rightarrow> s);
                         (cho, w1) = env_channel_ws_out env w canon_dst (uri_fragment u)
                                       (cfg_default_out_channel_idle_close_timeout (cfg c))
                     in case cho of
                          None \<Rightarrow> None
                        | Some ch \<Rightarrow> add_channel_internal_fault env w1)
                  else None))"

definition enqueue_frame_fault :: "'w env \<Rightarrow> mg_rpc \<Rightarrow> 'w \<Rightarrow> error option" where
  "enqueue_frame_fault env c w =
     (if queue_len c \<ge> cfg_max_queue_length (cfg c) then None
      else if fst (env_calloc env w) = 0 then Some (NullPointerDereference ''qe'') else None)"

definition dispatch_frame_fault ::
  "'w env \<Rightarrow> mg_rpc \<Rightarrow> string \<Rightarrow> string \<Rightarrow> i64 \<Rightarrow> string \<Rightarrow> string \<Rightarrow> nat option \<Rightarrow> bool
     \<Rightarrow> string \<Rightarrow> string option \<Rightarrow> 'w \<Rightarrow> error option" where
  "dispatch_frame_fault env c src dst ident tag key ci enqueue payload_prefix_json payload w =
     (case (case ci of None \<Rightarrow> by_dst_fault env c dst w | Some p \<Rightarrow> None) of
        Some e \<Rightarrow> Some e
      | None \<Rightarrow>
          (let (ci1, final_dst, c1, w1, t1) =
                 (case ci of
                    None \<Rightarrow> mg_rpc_get_channel_info_internal_by_dst env c dst w
                  | Some p \<Rightarrow> (Some p, dst, c, w, []));
               f = frame_text env c1 src final_dst ident tag key payload_prefix_json payload;
               (sent, c2, w2, t2) = mg_rpc_send_frame env c1 ci1 f w1
           in if \<not> sent \<and> enqueue then enqueue_frame_fault env c2 w2 else None))"

definition mg_rpc_get_id :: "'w env \<Rightarrow> mg_rpc \<Rightarrow> 'w \<Rightarrow> i64 \<times> mg_rpc \<times> 'w" where
  "mg_rpc_get_id env c w =
     (let (r, w1) = env_rand env w;
          c1 = c\<lparr>next_id := next_id c + word_of_int r\<rparr>
      in (next_id c1, c1, w1))"

text \<open>
  The broadcast loop of \<open>mg_rpc_vcallf\<close> over the channel list; \<open>result\<close> accumulates
  the \<open>|=\<close>.
\<close>

fun broadcast_loop ::
  "'w env \<Rightarrow> nat list \<Rightarrow> string \<Rightarrow> string \<Rightarrow> i64 \<Rightarrow> string \<Rightarrow> string
     \<Rightarrow> string \<Rightarrow> string option \<Rightarrow> bool \<Rightarrow> mg_rpc \<Rightarrow> 'w \<Rightarrow> bool \<times> mg_rpc \<times> 'w \<times> effect list" where
  "broadcast_loop env [] src dst ident tag key pprefix args result c w = (result, c, w, [])"
| "broadcast_loop env (ci # cis) src dst ident tag key pprefix args result c w =
     (if env_is_broadcast_enabled env w (ci_ch (ci_mem c ci)) \<noteq> Some True
      then broadcast_loop env cis src dst ident tag key pprefix args result c w
      else
        (case mg_rpc_dispatch_frame env c src dst ident tag key (Some ci) False
                pprefix args w of
           (r, c1, w1, t1) \<Rightarrow>
             (case broadcast_loop env cis src dst ident tag key pprefix args (result \<or> r) c1 w1 of
                (r2, c2, w2, t2) \<Rightarrow> (r2, c2, w2, t1 @ t2))))"

text \<open>
  The payload prefix \<open>mg_rpc_vcallf\<close> composes: the no-response marker when there is no
  callback, the method, and the key of the arguments when there are any.
\<close>

definition call_prefix :: "'w env \<Rightarrow> bool \<Rightarrow> string \<Rightarrow> bool \<Rightarrow> string" where
  "call_prefix env has_cb method has_args =
     (if has_cb then [] else ''\"nr\":true,'') @
     ''\"method\":'' @ env_json_quote env method @
     (if has_args then '',\"args\":'' else [])"

text \<open>
  \<open>mg_rpc_vcallf\<close> for a multiplexer that is not \<open>NULL\<close>. \<open>cb\<close> is the result callback
  (\<open>None\<close> is \<open>NULL\<close>), \<open>opts\<close> the options pointer, \<open>args\<close> the rendered arguments
  (\<open>None\<close> when \<open>args_jsonf\<close> is \<open>NULL\<close>). The reads of \<open>dst\<close>, \<open>tag\<close> and \<open>key\<close> test
  \<open>opts\<close> first; then, with a callback, \<open>ri->id = id\<close> writes through what \<open>calloc\<close>
  returned; then \<open>opts->src\<close> and \<open>opts->broadcast\<close> read through \<open>opts\<close> untested, and
  only then \<open>enqueue\<close> tests it again. In the broadcast loop the channel is given and
  nothing is queued, so nothing is allocated there.
\<close>

definition vcallf_body ::
  "'w env \<Rightarrow> mg_rpc \<Rightarrow> string \<Rightarrow> nat option \<Rightarrow> nat \<Rightarrow> mg_rpc_call_opts option \<Rightarrow> string option
     \<Rightarrow> 'w \<Rightarrow> error + (bool \<times> mg_rpc \<times> 'w \<times> effect list)" where
  "vcallf_body env c method cb cb_arg opts args w =
     (let (ident, c0, w0) = mg_rpc_get_id env c w;
          dst = (case opts of None \<Rightarrow> [] | Some opt \<Rightarrow> if opts_dst opt \<noteq> [] then opts_dst opt else []);
          tag = (case opts of None \<Rightarrow> [] | Some opt \<Rightarrow> if opts_tag opt \<noteq> [] then opts_tag opt else []);
          key = (case opts of None \<Rightarrow> [] | Some opt \<Rightarrow> if opts_key opt \<noteq> [] then opts_key opt else []);
          pprefix = call_prefix env (cb \<noteq> None) method (args \<noteq> None)
      in case (case cb of
                 None \<Rightarrow> Inr (None, w0)
               | Some f \<Rightarrow>
                   (let (p, wa) = env_calloc env w0
                    in if p = 0 then Inl (NullPointerDereference ''ri'')
                       else Inr (Some \<lparr>sri_id = ident, sri_cb = f, sri_cb_arg = cb_arg\<rparr>, wa))) of
           Inl e \<Rightarrow> Inl e
         | Inr (ri, wa) \<Rightarrow>
             (case opts of
                None \<Rightarrow> Inl (NullPointerDereference ''opts'')
              | Some opt \<Rightarrow>
                  (let src = (if opts_src opt = [] then c_str (cfg_id (cfg c0)) else opts_src opt);
                       enqueue = (if opts = None then True else \<not> opts_no_queue opt)
                   in case (if \<not> opts_broadcast opt
                            then dispatch_frame_fault env c0 src dst ident tag key None enqueue
                                   pprefix args wa
                            else None) of
                        Some e \<Rightarrow> Inl e
                      | None \<Rightarrow>
                          (let (result, c1, w1, t1) =
                                 (if \<not> opts_broadcast opt
                                  then mg_rpc_dispatch_frame env c0 src dst ident tag key None
                                         enqueue pprefix args wa
                                  else broadcast_loop env (channels c0) src dst ident tag key
                                         pprefix args False c0 wa)
                           in case ri of
                                Some r \<Rightarrow>
                                  if result
                                  then Inr (True, c1\<lparr>requests := r # requests c1\<rparr>, w1, t1)
                                  else Inr (False, c1, w1, t1)
                              | None \<Rightarrow> Inr (False, c1, w1, t1)))))"

definition mg_rpc_vcallf ::
  "'w env \<Rightarrow> mg_rpc option \<Rightarrow> string \<Rightarrow> nat option \<Rightarrow> nat \<Rightarrow> mg_rpc_call_opts option
     \<Rightarrow> string option \<Rightarrow> 'w \<Rightarrow> error + (bool \<times> mg_rpc option \<times> 'w \<times> effect list)" where
  "mg_rpc_vcallf env c method cb cb_arg opts args w =
     (case c of
        None \<Rightarrow> Inr (False, None, w, [])
      | Some m \<Rightarrow>
          (case vcallf_body env m method cb cb_arg opts args w of
             Inl e \<Rightarrow> Inl e
           | Inr (r, m1, w1, t1) \<Rightarrow> Inr (r, Some m1, w1, t1)))"

definition mg_rpc_callf ::
  "'w env \<Rightarrow> mg_rpc option \<Rightarrow> string \<Rightarrow> nat option \<Rightarrow> nat \<Rightarrow> mg_rpc_call_opts option
     \<Rightarrow> string option \<Rightarrow> 'w \<Rightarrow> error + (bool \<times> mg_rpc option \<times> 'w \<times> effect list)" where
  "mg_rpc_callf env c method cb cb_arg opts args w =
     mg_rpc_vcallf env c method cb cb_arg opts args w"

section \<open>The remaining operations of the multiplexer\<close>

text \<open>\<open>mg_rpc_create\<close>; \<open>mem\<close> is the memory as it is when the multiplexer is created.\<close>

definition mg_rpc_create :: "mg_rpc_cfg \<Rightarrow> (nat \<Rightarrow> mg_rpc_channel_info_internal) \<Rightarrow> mg_rpc" where
  "mg_rpc_create config mem =
     mg_rpc_add_local_id
       \<lparr>cfg = config, next_id = 0, queue_len = 0, local_ids = [], prehandler = None,
        prehandler_arg = 0, handlers = [], channels = [], ci_mem = mem, requests = [],
        observers = [], queue = []\<rparr>
       (c_str (cfg_id config))"

definition mg_rpc_add_handler :: "mg_rpc \<Rightarrow> string \<Rightarrow> string \<Rightarrow> nat \<Rightarrow> nat \<Rightarrow> mg_rpc" where
  "mg_rpc_add_handler c method args_fmt cb cb_arg =
     c\<lparr>handlers := \<lparr>hi_method = method, hi_args_fmt = args_fmt, hi_cb = cb, hi_cb_arg = cb_arg\<rparr>
                     # handlers c\<rparr>"

definition mg_rpc_set_prehandler :: "mg_rpc \<Rightarrow> nat option \<Rightarrow> nat \<Rightarrow> mg_rpc" where
  "mg_rpc_set_prehandler c cb cb_arg = c\<lparr>prehandler := cb, prehandler_arg := cb_arg\<rparr>"

definition mg_rpc_add_observer :: "mg_rpc \<Rightarrow> nat \<Rightarrow> nat \<Rightarrow> mg_rpc" where
  "mg_rpc_add_observer c cb cb_arg =
     c\<lparr>observers := \<lparr>oi_cb = cb, oi_cb_arg = cb_arg\<rparr> # observers c\<rparr>"

definition mg_rpc_remove_observer :: "mg_rpc \<Rightarrow> nat \<Rightarrow> nat \<Rightarrow> mg_rpc" where
  "mg_rpc_remove_observer c cb cb_arg =
     c\<lparr>observers := remove1 \<lparr>oi_cb = cb, oi_cb_arg = cb_arg\<rparr> (observers c)\<rparr>"

definition mg_rpc_connect :: "mg_rpc \<Rightarrow> effect list" where
  "mg_rpc_connect c = map (\<lambda>ci. ChConnect (ci_ch (ci_mem c ci))) (channels c)"

definition mg_rpc_disconnect :: "mg_rpc \<Rightarrow> effect list" where
  "mg_rpc_disconnect c = map (\<lambda>ci. ChClose (ci_ch (ci_mem c ci))) (channels c)"

definition mg_rpc_is_connected ::
  "'w env \<Rightarrow> mg_rpc \<Rightarrow> 'w \<Rightarrow> bool \<times> mg_rpc \<times> 'w \<times> effect list" where
  "mg_rpc_is_connected env c w =
     (let (ci, d, c1, w1, t1) = mg_rpc_get_channel_info_internal_by_dst env c (env_dst_default env) w
      in ((case ci of None \<Rightarrow> False | Some p \<Rightarrow> is_open (ci_mem c1 p)), c1, w1, t1))"

definition mg_rpc_can_send ::
  "'w env \<Rightarrow> mg_rpc \<Rightarrow> 'w \<Rightarrow> bool \<times> mg_rpc \<times> 'w \<times> effect list" where
  "mg_rpc_can_send env c w =
     (let (ci, d, c1, w1, t1) = mg_rpc_get_channel_info_internal_by_dst env c (env_dst_default env) w
      in ((case ci of
             None \<Rightarrow> False
           | Some p \<Rightarrow> is_open (ci_mem c1 p) \<and> \<not> is_busy (ci_mem c1 p)),
          c1, w1, t1))"

section \<open>Reachable states and the properties stated about them\<close>

text \<open>
  The states of a multiplexer between two operations: what \<open>mg_rpc_create\<close> returns, and
  what any public operation or channel event makes of such a state, in any world. The
  user's callbacks run as effects; what they do to the multiplexer they do through the
  public operations, which are steps of their own.
\<close>

inductive reachable :: "'w env \<Rightarrow> mg_rpc_cfg \<Rightarrow> mg_rpc \<Rightarrow> bool" for env :: "'w env" and config :: mg_rpc_cfg where
  r_create: "reachable env config (mg_rpc_create config mem)"
| r_add_local_id: "reachable env config c \<Longrightarrow> reachable env config (mg_rpc_add_local_id c ident)"
| r_add_handler:
    "reachable env config c \<Longrightarrow> reachable env config (mg_rpc_add_handler c meth args_fmt cb cb_arg)"
| r_set_prehandler:
    "reachable env config c \<Longrightarrow> reachable env config (mg_rpc_set_prehandler c pcb cb_arg)"
| r_add_observer:
    "reachable env config c \<Longrightarrow> reachable env config (mg_rpc_add_observer c cb cb_arg)"
| r_remove_observer:
    "reachable env config c \<Longrightarrow> reachable env config (mg_rpc_remove_observer c cb cb_arg)"
| r_add_channel:
    "reachable env config c \<Longrightarrow> mg_rpc_add_channel env c dst ch w = (c', w')
       \<Longrightarrow> reachable env config c'"
| r_is_connected:
    "reachable env config c \<Longrightarrow> mg_rpc_is_connected env c w = (b, c', w', t)
       \<Longrightarrow> reachable env config c'"
| r_can_send:
    "reachable env config c \<Longrightarrow> mg_rpc_can_send env c w = (b, c', w', t)
       \<Longrightarrow> reachable env config c'"
| r_ev_handler:
    "reachable env config c \<Longrightarrow> mg_rpc_ev_handler env c ch ev w = (c', w', t)
       \<Longrightarrow> reachable env config c'"
| r_vcallf:
    "reachable env config c \<Longrightarrow> vcallf_body env c meth rcb cb_arg opts args w = Inr (b, c', w', t)
       \<Longrightarrow> reachable env config c'"
| r_send_responsef:
    "reachable env config c \<Longrightarrow> mg_rpc_send_responsef env c ri result_json w = (b, c', w', t)
       \<Longrightarrow> reachable env config c'"
| r_send_errorf:
    "reachable env config c \<Longrightarrow> send_errorf env c ri error_code msg w = (b, c', w', t)
       \<Longrightarrow> reachable env config c'"

definition busy_implies_open :: "mg_rpc \<Rightarrow> bool" where
  "busy_implies_open c =
     list_all (\<lambda>ci. is_busy (ci_mem c ci) \<longrightarrow> is_open (ci_mem c ci)) (channels c)"

definition queue_bounded :: "mg_rpc \<Rightarrow> bool" where
  "queue_bounded c =
     (queue_len c = int (length (queue c)) \<and> queue_len c \<le> cfg_max_queue_length (cfg c))"

text \<open>
  The fields that sending, queueing and destination resolution leave alone.
\<close>

definition tables_kept :: "mg_rpc \<Rightarrow> mg_rpc \<Rightarrow> bool" where
  "tables_kept c c' =
     (cfg c' = cfg c \<and> next_id c' = next_id c \<and> local_ids c' = local_ids c \<and>
      prehandler c' = prehandler c \<and> prehandler_arg c' = prehandler_arg c \<and>
      handlers c' = handlers c \<and> requests c' = requests c \<and> observers c' = observers c)"

text \<open>
  For each node \<open>mg_rpc_process_queue\<close> visits, in the order of the visits, whether its
  send succeeded: the loop of \<open>process_queue_loop\<close>, keeping the results of
  \<open>process_queue_entry\<close>.
\<close>

fun drain_outcomes ::
  "'w env \<Rightarrow> nat \<Rightarrow> mg_rpc_queue_entry list \<Rightarrow> mg_rpc \<Rightarrow> 'w \<Rightarrow> bool list" where
  "drain_outcomes env i [] c w = []"
| "drain_outcomes env i (qe # rest) c w =
     (case process_queue_entry env qe c w of
        (sent, c2, w2, t2) \<Rightarrow>
          sent # (if sent then drain_outcomes env i rest (mg_rpc_remove_queue_entry c2 i) w2
                  else drain_outcomes env (Suc i) rest c2 w2))"

text \<open>The entries of a queue whose outcome is \<open>b\<close>, in queue order.\<close>

definition entries_with :: "bool \<Rightarrow> mg_rpc_queue_entry list \<Rightarrow> bool list \<Rightarrow> mg_rpc_queue_entry list" where
  "entries_with b q oks = map fst (filter (\<lambda>(qe, ok). ok = b) (zip q oks))"

text \<open>
  The local-identity set in the spec's words: the identities stored in the buffer, that
  is, its NUL-terminated segments.
\<close>

function local_id_list :: "string \<Rightarrow> string list" where
  "local_id_list buf =
     (if buf = [] then [] else c_str buf # local_id_list (drop (length (c_str buf) + 1) buf))"
  by pat_completeness auto
termination
  by (relation "measure length") auto

declare local_id_list.simps [simp del]

definition local_identity_set :: "mg_rpc \<Rightarrow> string set" where
  "local_identity_set c = set (local_id_list (local_ids c))"

text \<open>The effects by which a frame is seen to be dispatched as a request.\<close>

fun is_request_dispatch :: "effect \<Rightarrow> bool" where
  "is_request_dispatch (HandlerCb cb arg ri args) = True"
| "is_request_dispatch (PrehandlerCb cb arg ri args r) = True"
| "is_request_dispatch (LogError m) = (m = ''No handler for'')"
| "is_request_dispatch e = False"

fun is_channel_close :: "effect \<Rightarrow> bool" where
  "is_channel_close (ChClose ch) = True"
| "is_channel_close e = False"

fun is_result_cb :: "effect \<Rightarrow> bool" where
  "is_result_cb (ResultCb cb arg r ec em) = True"
| "is_result_cb e = False"

text \<open>A trace of transport sends, connects and log lines only.\<close>

definition quiet :: "effect list \<Rightarrow> bool" where
  "quiet t = list_all (\<lambda>e. \<not> is_channel_close e \<and> \<not> is_request_dispatch e \<and> \<not> is_result_cb e) t"

text \<open>
  What sending, queueing and destination resolution do to a state: they keep the tables,
  the two invariants below, and leave a quiet trace. \<open>keeps_invariants\<close> is the part of
  it that every operation has.
\<close>

definition io_ok :: "mg_rpc \<Rightarrow> mg_rpc \<Rightarrow> effect list \<Rightarrow> bool" where
  "io_ok c c' t =
     (tables_kept c c' \<and> (busy_implies_open c \<longrightarrow> busy_implies_open c') \<and>
      (queue_bounded c \<longrightarrow> queue_bounded c') \<and> quiet t)"

definition keeps_invariants :: "mg_rpc \<Rightarrow> mg_rpc \<Rightarrow> bool" where
  "keeps_invariants c c' =
     (cfg c' = cfg c \<and> (busy_implies_open c \<longrightarrow> busy_implies_open c') \<and>
      (queue_bounded c \<longrightarrow> queue_bounded c'))"

text \<open>The frames the transports accepted, in the order of the calls.\<close>

fun accepted_frames :: "effect list \<Rightarrow> string list" where
  "accepted_frames [] = []"
| "accepted_frames (SendFrame ch f True # es) = f # accepted_frames es"
| "accepted_frames (e # es) = accepted_frames es"

text \<open>
  One pending request was completed: the first record with some id other than 0 is gone
  from the pending requests, and the trace holds one call of a result callback, the call
  of that record's.
\<close>

definition one_completed :: "mg_rpc \<Rightarrow> mg_rpc \<Rightarrow> effect list \<Rightarrow> bool" where
  "one_completed c c' t =
     (\<exists>ri res ec em. sri_id ri \<noteq> 0 \<and> find (\<lambda>r. sri_id r = sri_id ri) (requests c) = Some ri \<and>
        requests c' = remove1 ri (requests c) \<and>
        filter is_result_cb t = [ResultCb (sri_cb ri) (sri_cb_arg ri) res ec em])"

section \<open>A concrete environment\<close>

text \<open>
  A small world to run the operations in: the values \<open>rand\<close> will return and the next
  fresh address. Transport 1 is persistent; transport 2 refuses every frame; transport 3
  has no broadcast method; the only URI is \<open>ws://h\<close>.
\<close>

record test_world =
  tw_rand :: "int list"
  tw_next :: nat

definition test_scanf :: "string \<Rightarrow> scanned" where
  "test_scanf f =
     \<lparr>sc_v = None,
      sc_id = (if f = ''{\"id\":7}'' then Some 7 else None),
      sc_src = None, sc_dst = None, sc_tag = None, sc_method = None, sc_args = None,
      sc_auth = None, sc_result = None, sc_error_code = None, sc_error_msg = None\<rparr>"

definition test_env :: "test_world env" where
  "test_env =
     \<lparr>env_json_scanf = test_scanf,
      env_json_quote = (\<lambda>s. ''\"'' @ s @ ''\"''),
      env_fmt_lld = (\<lambda>i. if i = 5 then ''5'' else if i = 7 then ''7'' else ''0''),
      env_fmt_d = (\<lambda>i. if i = 404 then ''404'' else ''0''),
      env_parse_uri = (\<lambda>s. if s = ''ws://h''
                           then Some \<lparr>uri_scheme = ''ws'', uri_user_info = [], uri_host = ''h'',
                                      uri_port = 0, uri_path = [], uri_query = [],
                                      uri_fragment = []\<rparr>
                           else None),
      env_assemble_uri = (\<lambda>sch ui host port path qs. Some (sch @ ''://'' @ host @ path)),
      env_dst_default = ''*'',
      env_rand = (\<lambda>w. case tw_rand w of [] \<Rightarrow> (0, w) | r # rs \<Rightarrow> (r, w\<lparr>tw_rand := rs\<rparr>)),
      env_calloc = (\<lambda>w. (tw_next w, w\<lparr>tw_next := Suc (tw_next w)\<rparr>)),
      env_channel_ws_out = (\<lambda>w addr frag t. (Some (tw_next w), w\<lparr>tw_next := Suc (tw_next w)\<rparr>)),
      env_send_frame = (\<lambda>w ch f. (ch \<noteq> 2, w)),
      env_is_persistent = (\<lambda>w ch. ch = 1),
      env_is_broadcast_enabled = (\<lambda>w ch. if ch = 3 then None else Some True),
      env_prehandler = (\<lambda>w cb arg ri args. (True, w))\<rparr>"

definition test_cfg :: mg_rpc_cfg where
  "test_cfg = \<lparr>cfg_id = ''me'', cfg_max_queue_length = 2,
               cfg_default_out_channel_idle_close_timeout = 0\<rparr>"

definition test_world0 :: test_world where
  "test_world0 = \<lparr>tw_rand = [], tw_next = 100\<rparr>"

definition test_opts :: mg_rpc_call_opts where
  "test_opts = \<lparr>opts_src = [], opts_dst = [], opts_tag = [], opts_key = [],
                opts_no_queue = False, opts_broadcast = False\<rparr>"

text \<open>A multiplexer with one open, idle channel to the default destination on transport 1.\<close>

definition test_rpc :: mg_rpc where
  "test_rpc =
     (mg_rpc_create test_cfg (\<lambda>p. zero_ci))
       \<lparr>channels := [10],
        ci_mem := (\<lambda>p. zero_ci)
                    (10 := \<lparr>ci_dst = ''*'', ci_ch = 1, is_open = True, is_busy = False\<rparr>)\<rparr>"

text \<open>A request for an unknown method, addressed to us and to somebody else.\<close>

definition frame_nope :: mg_rpc_frame where
  "frame_nope = \<lparr>frame_version = 0, frame_id = 7, frame_src = ''peer'', frame_dst = ''me'', frame_tag = [],
           frame_method = ''Nope'', frame_args = [], frame_result = [], frame_error_code = 0,
           frame_error_msg = [], frame_auth = []\<rparr>"

definition frame_foreign :: mg_rpc_frame where
  "frame_foreign = frame_nope\<lparr>frame_dst := ''other''\<rparr>"

text \<open>A multiplexer whose only channel is on transport 2, which is not persistent.\<close>

definition test_rpc2 :: mg_rpc where
  "test_rpc2 =
     test_rpc\<lparr>channels := [20],
              ci_mem := (\<lambda>p. zero_ci)
                          (20 := \<lparr>ci_dst = ''peer'', ci_ch = 2, is_open = True, is_busy = False\<rparr>)\<rparr>"

text \<open>Calls on \<open>test_rpc\<close>, in worlds where \<open>rand\<close> returns 0, then 5 and 0, and 7.\<close>

definition test_world7 :: test_world where
  "test_world7 = \<lparr>tw_rand = [7], tw_next = 100\<rparr>"

definition test_world50 :: test_world where
  "test_world50 = \<lparr>tw_rand = [5, 0], tw_next = 100\<rparr>"

definition call_with_zero_id :: "error + bool \<times> mg_rpc \<times> test_world \<times> effect list" where
  "call_with_zero_id =
     vcallf_body test_env test_rpc ''Foo'' (Some 42) 0 (Some test_opts) None test_world0"

definition first_call :: "error + bool \<times> mg_rpc \<times> test_world \<times> effect list" where
  "first_call =
     vcallf_body test_env test_rpc ''Foo'' (Some 42) 0 (Some test_opts) None test_world50"

definition second_call :: "error + bool \<times> mg_rpc \<times> test_world \<times> effect list" where
  "second_call =
     vcallf_body test_env (fst (snd (projr first_call))) ''Bar'' (Some 43) 0 (Some test_opts) None
       (fst (snd (snd (projr first_call))))"

definition call_without_callback :: "error + bool \<times> mg_rpc \<times> test_world \<times> effect list" where
  "call_without_callback =
     vcallf_body test_env test_rpc ''Foo'' None 0 (Some test_opts) None test_world7"

text \<open>Two open channels and three queued frames.\<close>

definition test_rpc3 :: mg_rpc where
  "test_rpc3 =
     test_rpc
       \<lparr>cfg := test_cfg\<lparr>cfg_max_queue_length := 3\<rparr>,
        channels := [20, 10],
        ci_mem := (\<lambda>p. zero_ci)
                    (10 := \<lparr>ci_dst = ''*'', ci_ch = 1, is_open = True, is_busy = False\<rparr>,
                     20 := \<lparr>ci_dst = ''peer'', ci_ch = 2, is_open = True, is_busy = False\<rparr>),
        queue := [\<lparr>qe_dst = ''peer'', qe_frame = ''A'', qe_ci = Some 20\<rparr>,
                  \<lparr>qe_dst = [], qe_frame = ''B'', qe_ci = None\<rparr>,
                  \<lparr>qe_dst = [], qe_frame = ''C'', qe_ci = Some 10\<rparr>],
        queue_len := 3\<rparr>"

text \<open>A configuration with a negative queue bound.\<close>

definition neg_cfg :: mg_rpc_cfg where
  "neg_cfg = test_cfg\<lparr>cfg_max_queue_length := - 1\<rparr>"

definition test_world123 :: test_world where
  "test_world123 = \<lparr>tw_rand = [1, 2, 3], tw_next = 100\<rparr>"

text \<open>A fresh multiplexer with one channel, opened, and one call sent on it.\<close>

definition run_added :: "mg_rpc \<times> test_world" where
  "run_added = mg_rpc_add_channel test_env (mg_rpc_create test_cfg (\<lambda>p. zero_ci)) ''*'' 1 test_world7"

definition run_open :: "mg_rpc \<times> test_world \<times> effect list" where
  "run_open = mg_rpc_ev_handler test_env (fst run_added) 1 MG_RPC_CHANNEL_OPEN (snd run_added)"

definition run_open_call :: "error + bool \<times> mg_rpc \<times> test_world \<times> effect list" where
  "run_open_call =
     vcallf_body test_env (fst run_open) ''Foo'' (Some 42) 0 (Some test_opts) None (fst (snd run_open))"

text \<open>A fresh multiplexer with one channel that stays closed, and three calls.\<close>

definition run_closed :: "mg_rpc \<times> test_world" where
  "run_closed = mg_rpc_add_channel test_env (mg_rpc_create test_cfg (\<lambda>p. zero_ci)) ''*'' 1 test_world123"

definition run_closed_call1 :: "error + bool \<times> mg_rpc \<times> test_world \<times> effect list" where
  "run_closed_call1 =
     vcallf_body test_env (fst run_closed) ''Foo'' (Some 42) 0 (Some test_opts) None (snd run_closed)"

definition run_closed_call2 :: "error + bool \<times> mg_rpc \<times> test_world \<times> effect list" where
  "run_closed_call2 =
     vcallf_body test_env (fst (snd (projr run_closed_call1))) ''Foo'' (Some 42) 0 (Some test_opts) None
       (fst (snd (snd (projr run_closed_call1))))"

definition run_closed_call3 :: "error + bool \<times> mg_rpc \<times> test_world \<times> effect list" where
  "run_closed_call3 =
     vcallf_body test_env (fst (snd (projr run_closed_call2))) ''Foo'' (Some 42) 0 (Some test_opts) None
       (fst (snd (snd (projr run_closed_call2))))"

text \<open>
  Worlds in which allocation fails: a world whose first \<open>calloc\<close> returns \<open>NULL\<close> and
  an environment whose every \<open>calloc\<close> does; a call to a destination URI, and a
  multiplexer whose only channel is closed, so that a call is queued.
\<close>

definition test_world_null :: test_world where
  "test_world_null = \<lparr>tw_rand = [7], tw_next = 0\<rparr>"

definition test_env_null :: "test_world env" where
  "test_env_null = test_env\<lparr>env_calloc := (\<lambda>w. (0, w))\<rparr>"

definition test_opts_uri :: mg_rpc_call_opts where
  "test_opts_uri = test_opts\<lparr>opts_dst := ''ws://h''\<rparr>"

definition test_rpc_closed :: mg_rpc where
  "test_rpc_closed =
     test_rpc\<lparr>ci_mem := (\<lambda>p. zero_ci)
                           (10 := \<lparr>ci_dst = ''*'', ci_ch = 1, is_open = False, is_busy = False\<rparr>)\<rparr>"

section \<open>Evaluation rules\<close>

lemmas eval_defs =
  test_env_def test_cfg_def test_world0_def test_opts_def test_rpc_def test_scanf_def
  zero_ci_def mg_rpc_create_def mg_rpc_add_local_id_def c_str_def
  is_local_id_def is_local_id_loop.simps
  mg_rpc_handle_frame_def mg_rpc_handle_request_def mg_rpc_handle_response_def
  mg_rpc_send_errorf_def send_errorf_def mg_rpc_send_responsef_def
  mg_rpc_dispatch_frame_def mg_rpc_get_channel_info_internal_def
  mg_rpc_get_channel_info_internal_by_dst_def mg_rpc_add_channel_internal_def
  mg_rpc_add_channel_def dst_is_equal_def canonicalize_dst_uri_def is_ws_scheme_def
  mg_rpc_send_frame_def mg_rpc_enqueue_frame_def mg_rpc_remove_queue_entry_def
  frame_text_def ci_update_def process_queue_entry_def mg_rpc_process_queue_def
  mg_rpc_ev_handler_def close_if_not_persistent_def mg_rpc_call_observers_def
  mg_rpc_get_id_def call_prefix_def vcallf_body_def mg_rpc_vcallf_def mg_rpc_callf_def
  add_channel_internal_fault_def by_dst_fault_def enqueue_frame_fault_def dispatch_frame_fault_def
  mg_rpc_parse_frame_def json_scanf_ret_def opt_count_def num_or_zero_def tok_or_zero_def
  frame_nope_def frame_foreign_def
  Let_def

lemmas eval_defs2 = eval_defs test_world7_def test_world50_def call_with_zero_id_def
  first_call_def second_call_def call_without_callback_def

lemmas eval_defs3 = eval_defs2 test_rpc2_def test_rpc3_def

lemmas eval_defs5 = eval_defs2 test_world_null_def test_env_null_def test_opts_uri_def
  test_rpc_closed_def

lemmas eval_defs4 = eval_defs3 neg_cfg_def test_world123_def run_added_def run_open_def run_open_call_def
  run_closed_def run_closed_call1_def run_closed_call2_def run_closed_call3_def
  process_queue_loop.simps

section \<open>Frame parsing: failure and defaults\<close>

lemma json_scanf_ret_lt_1_iff:
  "json_scanf_ret sc < 1 \<longleftrightarrow>
     sc_v sc = None \<and> sc_id sc = None \<and> sc_src sc = None \<and> sc_dst sc = None \<and>
     sc_tag sc = None \<and> sc_method sc = None \<and> sc_args sc = None \<and> sc_auth sc = None \<and>
     sc_result sc = None \<and> sc_error_code sc = None \<and> sc_error_msg sc = None"
  unfolding json_scanf_ret_def opt_count_def
  by (auto split: option.splits)

lemma mg_mk_str_n_zero_token [simp]:
  "mg_mk_str_n f (tok_ptr zero_token) (tok_len zero_token) = []"
  by (simp add: mg_mk_str_n_def zero_token_def)

lemma widen_zero_token [simp]: "widen_result zero_token = zero_token"
  by (simp add: widen_result_def zero_token_def)

text \<open>
  Claim C8. \<open>mg_rpc_parse_frame\<close> fails exactly when the scanner recognised none of the
  eleven fields; when it succeeds, every field the scanner did not recognise has its
  default in the frame: the empty string for \<open>src\<close>, \<open>dst\<close>, \<open>tag\<close>, \<open>method\<close>, \<open>args\<close>,
  \<open>auth\<close>, \<open>result\<close> and the error message, zero for the version, the id and the error
  code.
\<close>

theorem parse_frame_fails_iff_nothing_recognised:
  "let sc = env_json_scanf env f in
         (mg_rpc_parse_frame env f = None \<longleftrightarrow>
           sc_v sc = None \<and> sc_id sc = None \<and> sc_src sc = None \<and> sc_dst sc = None \<and>
           sc_tag sc = None \<and> sc_method sc = None \<and> sc_args sc = None \<and> sc_auth sc = None \<and>
           sc_result sc = None \<and> sc_error_code sc = None \<and> sc_error_msg sc = None) \<and>
         (\<forall>frame. mg_rpc_parse_frame env f = Some frame \<longrightarrow>
           (sc_v sc = None \<longrightarrow> frame_version frame = 0) \<and>
           (sc_id sc = None \<longrightarrow> frame_id frame = 0) \<and>
           (sc_src sc = None \<longrightarrow> frame_src frame = []) \<and>
           (sc_dst sc = None \<longrightarrow> frame_dst frame = []) \<and>
           (sc_tag sc = None \<longrightarrow> frame_tag frame = []) \<and>
           (sc_method sc = None \<longrightarrow> frame_method frame = []) \<and>
           (sc_args sc = None \<longrightarrow> frame_args frame = []) \<and>
           (sc_auth sc = None \<longrightarrow> frame_auth frame = []) \<and>
           (sc_result sc = None \<longrightarrow> frame_result frame = []) \<and>
           (sc_error_code sc = None \<longrightarrow> frame_error_code frame = 0) \<and>
           (sc_error_msg sc = None \<longrightarrow> frame_error_msg frame = []))"
proof -
  define sc where "sc = env_json_scanf env f"
  have "(mg_rpc_parse_frame env f = None \<longleftrightarrow>
           sc_v sc = None \<and> sc_id sc = None \<and> sc_src sc = None \<and> sc_dst sc = None \<and>
           sc_tag sc = None \<and> sc_method sc = None \<and> sc_args sc = None \<and> sc_auth sc = None \<and>
           sc_result sc = None \<and> sc_error_code sc = None \<and> sc_error_msg sc = None) \<and>
         (\<forall>frame. mg_rpc_parse_frame env f = Some frame \<longrightarrow>
           (sc_v sc = None \<longrightarrow> frame_version frame = 0) \<and>
           (sc_id sc = None \<longrightarrow> frame_id frame = 0) \<and>
           (sc_src sc = None \<longrightarrow> frame_src frame = []) \<and>
           (sc_dst sc = None \<longrightarrow> frame_dst frame = []) \<and>
           (sc_tag sc = None \<longrightarrow> frame_tag frame = []) \<and>
           (sc_method sc = None \<longrightarrow> frame_method frame = []) \<and>
           (sc_args sc = None \<longrightarrow> frame_args frame = []) \<and>
           (sc_auth sc = None \<longrightarrow> frame_auth frame = []) \<and>
           (sc_result sc = None \<longrightarrow> frame_result frame = []) \<and>
           (sc_error_code sc = None \<longrightarrow> frame_error_code frame = 0) \<and>
           (sc_error_msg sc = None \<longrightarrow> frame_error_msg frame = []))"
  proof (intro conjI allI impI)
    show "mg_rpc_parse_frame env f = None \<longleftrightarrow>
           sc_v sc = None \<and> sc_id sc = None \<and> sc_src sc = None \<and> sc_dst sc = None \<and>
           sc_tag sc = None \<and> sc_method sc = None \<and> sc_args sc = None \<and> sc_auth sc = None \<and>
           sc_result sc = None \<and> sc_error_code sc = None \<and> sc_error_msg sc = None"
      unfolding sc_def json_scanf_ret_lt_1_iff [symmetric]
      by (simp add: mg_rpc_parse_frame_def Let_def)
  next
    fix frame
    assume ok: "mg_rpc_parse_frame env f = Some frame"
    { assume "sc_v sc = None"
      with ok show "frame_version frame = 0"
        by (auto simp: mg_rpc_parse_frame_def Let_def sc_def num_or_zero_def split: if_splits) }
    { assume "sc_id sc = None"
      with ok show "frame_id frame = 0"
        by (auto simp: mg_rpc_parse_frame_def Let_def sc_def num_or_zero_def split: if_splits) }
    { assume "sc_src sc = None"
      with ok show "frame_src frame = []"
        by (auto simp: mg_rpc_parse_frame_def Let_def sc_def tok_or_zero_def split: if_splits) }
    { assume "sc_dst sc = None"
      with ok show "frame_dst frame = []"
        by (auto simp: mg_rpc_parse_frame_def Let_def sc_def tok_or_zero_def split: if_splits) }
    { assume "sc_tag sc = None"
      with ok show "frame_tag frame = []"
        by (auto simp: mg_rpc_parse_frame_def Let_def sc_def tok_or_zero_def split: if_splits) }
    { assume "sc_method sc = None"
      with ok show "frame_method frame = []"
        by (auto simp: mg_rpc_parse_frame_def Let_def sc_def tok_or_zero_def split: if_splits) }
    { assume "sc_args sc = None"
      with ok show "frame_args frame = []"
        by (auto simp: mg_rpc_parse_frame_def Let_def sc_def tok_or_zero_def split: if_splits) }
    { assume "sc_auth sc = None"
      with ok show "frame_auth frame = []"
        by (auto simp: mg_rpc_parse_frame_def Let_def sc_def tok_or_zero_def split: if_splits) }
    { assume "sc_result sc = None"
      with ok show "frame_result frame = []"
        by (auto simp: mg_rpc_parse_frame_def Let_def sc_def tok_or_zero_def split: if_splits) }
    { assume "sc_error_code sc = None"
      with ok show "frame_error_code frame = 0"
        by (auto simp: mg_rpc_parse_frame_def Let_def sc_def num_or_zero_def split: if_splits) }
    { assume "sc_error_msg sc = None"
      with ok show "frame_error_msg frame = []"
        by (auto simp: mg_rpc_parse_frame_def Let_def sc_def tok_or_zero_def split: if_splits) }
  qed
  then show ?thesis by (simp add: sc_def Let_def)
qed

theorem parse_frame_fails_iff_nothing_recognised_witness:
  "mg_rpc_parse_frame test_env ''{\"id\":7}'' =
     Some \<lparr>frame_version = 0, frame_id = 7, frame_src = [], frame_dst = [], frame_tag = [],
           frame_method = [], frame_args = [], frame_result = [], frame_error_code = 0,
           frame_error_msg = [], frame_auth = []\<rparr> \<and>
   mg_rpc_parse_frame test_env ''junk'' = None"
  using parse_frame_fails_iff_nothing_recognised [of test_env "''{\"id\":7}''"]
        parse_frame_fails_iff_nothing_recognised [of test_env "''junk''"]
  by (simp add: test_env_def test_scanf_def mg_rpc_parse_frame_def json_scanf_ret_def
        opt_count_def Let_def num_or_zero_def tok_or_zero_def)

section \<open>The local-identity buffer and the building blocks\<close>

lemma is_local_id_loop_iff: "is_local_id_loop buf x \<longleftrightarrow> x \<in> set (local_id_list buf)"
proof (induction buf x rule: is_local_id_loop.induct)
  case (1 buf ident)
  show ?case
  proof (cases "buf = []")
    case True
    then show ?thesis
      by (subst is_local_id_loop.simps, subst local_id_list.simps) simp
  next
    case False
    show ?thesis
    proof (cases "ident = c_str buf")
      case True
      with False show ?thesis
        by (subst is_local_id_loop.simps, subst local_id_list.simps) simp
    next
      case neq: False
      from "1" [OF False neq] False neq show ?thesis
        by (subst is_local_id_loop.simps, subst local_id_list.simps) auto
    qed
  qed
qed

lemma is_local_id_iff: "is_local_id c x \<longleftrightarrow> x \<in> local_identity_set c"
  by (simp add: is_local_id_def local_identity_set_def is_local_id_loop_iff)

subsection \<open>What the building blocks change\<close>

lemma by_dst_cases:
  assumes "mg_rpc_get_channel_info_internal_by_dst env c dst w = (r, d, c', w', t)"
  shows "(c' = c \<and> w' = w \<and> t = []) \<or>
         (c' = c \<and> r = None \<and> (t = [LogError ''Failed to create RPC channel''] \<or> t = [LogError ''Unsupported connection scheme''])) \<or>
         (\<exists>p a ch. r = Some p \<and> t = [ChConnect ch] \<and>
            c' = c\<lparr>ci_mem := (ci_mem c)(p := \<lparr>ci_dst = a, ci_ch = ch, is_open = False, is_busy = False\<rparr>),
                   channels := p # channels c\<rparr>)"
proof (cases "by_dst_scan env (ci_mem c) dst (channels c) None")
  case (Inl p)
  with assms show ?thesis
    by (simp add: mg_rpc_get_channel_info_internal_by_dst_def Let_def)
next
  case (Inr dflt)
  show ?thesis
  proof (cases "if dst \<noteq> [] then env_parse_uri env dst else None")
    case None
    with assms Inr show ?thesis
      by (simp add: mg_rpc_get_channel_info_internal_by_dst_def Let_def)
  next
    case (Some u)
    show ?thesis
    proof (cases "uri_scheme u \<noteq> []")
      case False
      with assms Inr Some show ?thesis
        by (simp add: mg_rpc_get_channel_info_internal_by_dst_def Let_def)
    next
      case scheme: True
      show ?thesis
      proof (cases "is_ws_scheme (uri_scheme u)")
        case False
        with assms Inr Some scheme show ?thesis
          by (simp add: mg_rpc_get_channel_info_internal_by_dst_def Let_def)
      next
        case ws: True
        obtain cho w1 where out: "env_channel_ws_out env w (case canonicalize_dst_uri env u of None \<Rightarrow> [] | Some s \<Rightarrow> s) (uri_fragment u)
                                       (cfg_default_out_channel_idle_close_timeout (cfg c)) = (cho, w1)"
          by (cases "env_channel_ws_out env w (case canonicalize_dst_uri env u of None \<Rightarrow> [] | Some s \<Rightarrow> s) (uri_fragment u)
                                       (cfg_default_out_channel_idle_close_timeout (cfg c))") 
        show ?thesis
        proof (cases cho)
          case None
          with assms Inr Some scheme ws out show ?thesis
            by (simp add: mg_rpc_get_channel_info_internal_by_dst_def Let_def)
        next
          case (Some ch)
          obtain p w2 where al: "env_calloc env w1 = (p, w2)" by (cases "env_calloc env w1")
          from assms Inr \<open>(if dst \<noteq> [] then env_parse_uri env dst else None) = Some u\<close> scheme ws out Some al
          show ?thesis
            by (auto simp add: mg_rpc_get_channel_info_internal_by_dst_def Let_def mg_rpc_add_channel_internal_def)
        qed
      qed
    qed
  qed
qed

lemma send_frame_cases:
  assumes "mg_rpc_send_frame env c ci f w = (ok, c', w', t)"
  shows "(\<not> ok \<and> c' = c \<and> (t = [] \<or> (\<exists>ch. t = [SendFrame ch f False]))) \<or>
         (ok \<and> (\<exists>p. ci = Some p \<and> is_open (ci_mem c p) \<and> \<not> is_busy (ci_mem c p) \<and>
                    c' = ci_update c p (\<lambda>x. x\<lparr>is_busy := True\<rparr>) \<and>
                    t = [SendFrame (ci_ch (ci_mem c p)) f True]))"
proof (cases ci)
  case None
  with assms show ?thesis by (simp add: mg_rpc_send_frame_def)
next
  case (Some p)
  show ?thesis
  proof (cases "\<not> is_open (ci_mem c p) \<or> is_busy (ci_mem c p)")
    case True
    with assms Some show ?thesis by (auto simp add: mg_rpc_send_frame_def)
  next
    case False
    obtain r w1 where sf: "env_send_frame env w (ci_ch (ci_mem c p)) f = (r, w1)"
      by (cases "env_send_frame env w (ci_ch (ci_mem c p)) f")
    from assms Some False sf show ?thesis
      by (cases r) (auto simp add: mg_rpc_send_frame_def)
  qed
qed

lemma enqueue_cases:
  assumes "mg_rpc_enqueue_frame c ci dst f = (ok, c')"
  shows "(\<not> ok \<and> c' = c \<and> queue_len c \<ge> cfg_max_queue_length (cfg c)) \<or>
         (ok \<and> queue_len c < cfg_max_queue_length (cfg c) \<and>
            c' = c\<lparr>queue := queue c @ [\<lparr>qe_dst = dst, qe_frame = f, qe_ci = ci\<rparr>], queue_len := queue_len c + 1\<rparr>)"
  using assms unfolding mg_rpc_enqueue_frame_def by (auto split: if_splits)

subsection \<open>The tables are kept\<close>

lemma tables_kept_refl [simp]: "tables_kept c c"
  by (simp add: tables_kept_def)

lemma tables_kept_trans: "tables_kept a b \<Longrightarrow> tables_kept b c \<Longrightarrow> tables_kept a c"
  by (simp add: tables_kept_def)

lemma by_dst_tables:
  "mg_rpc_get_channel_info_internal_by_dst env c dst w = (r, d, c', w', t) \<Longrightarrow> tables_kept c c'"
  by (drule by_dst_cases) (auto simp: tables_kept_def)

lemma by_dst_queue:
  "mg_rpc_get_channel_info_internal_by_dst env c dst w = (r, d, c', w', t)
     \<Longrightarrow> queue c' = queue c \<and> queue_len c' = queue_len c"
  by (drule by_dst_cases) auto

lemma by_dst_quiet:
  "mg_rpc_get_channel_info_internal_by_dst env c dst w = (r, d, c', w', t) \<Longrightarrow> quiet t \<and> accepted_frames t = []"
  by (drule by_dst_cases) (auto simp: quiet_def)

lemma by_dst_busy:
  "mg_rpc_get_channel_info_internal_by_dst env c dst w = (r, d, c', w', t)
     \<Longrightarrow> busy_implies_open c \<Longrightarrow> busy_implies_open c'"
  by (drule by_dst_cases) (auto simp: busy_implies_open_def list_all_iff)

lemma send_frame_tables:
  "mg_rpc_send_frame env c ci f w = (ok, c', w', t) \<Longrightarrow> tables_kept c c'"
  by (drule send_frame_cases) (auto simp: tables_kept_def ci_update_def)

lemma send_frame_queue:
  "mg_rpc_send_frame env c ci f w = (ok, c', w', t)
     \<Longrightarrow> queue c' = queue c \<and> queue_len c' = queue_len c \<and> channels c' = channels c"
  by (drule send_frame_cases) (auto simp: ci_update_def)

lemma send_frame_quiet:
  "mg_rpc_send_frame env c ci f w = (ok, c', w', t)
     \<Longrightarrow> quiet t \<and> accepted_frames t = (if ok then [f] else [])"
  by (drule send_frame_cases) (auto simp: quiet_def)

lemma send_frame_busy:
  "mg_rpc_send_frame env c ci f w = (ok, c', w', t)
     \<Longrightarrow> busy_implies_open c \<Longrightarrow> busy_implies_open c'"
  by (drule send_frame_cases) (auto simp: busy_implies_open_def list_all_iff ci_update_def)

lemma io_ok_refl [simp]: "io_ok c c []"
  by (simp add: io_ok_def quiet_def)

lemma quiet_append [simp]: "quiet (t1 @ t2) \<longleftrightarrow> quiet t1 \<and> quiet t2"
  by (simp add: quiet_def)

lemma accepted_frames_append [simp]:
  "accepted_frames (t1 @ t2) = accepted_frames t1 @ accepted_frames t2"
  by (induction t1 rule: accepted_frames.induct) simp_all

lemma io_ok_trans: "io_ok a b t1 \<Longrightarrow> io_ok b c t2 \<Longrightarrow> io_ok a c (t1 @ t2)"
  by (auto simp add: io_ok_def intro: tables_kept_trans)

lemma io_ok_trans_nil: "io_ok a b t1 \<Longrightarrow> io_ok b c [] \<Longrightarrow> io_ok a c t1"
  using io_ok_trans [of a b t1 c "[]"] by simp

lemma by_dst_io:
  assumes "mg_rpc_get_channel_info_internal_by_dst env c dst w = (r, d, c', w', t)"
  shows "io_ok c c' t"
  using by_dst_tables [OF assms] by_dst_queue [OF assms] by_dst_quiet [OF assms]
        by_dst_busy [OF assms]
  by (simp add: io_ok_def queue_bounded_def tables_kept_def)

lemma send_frame_io:
  assumes "mg_rpc_send_frame env c ci f w = (ok, c', w', t)"
  shows "io_ok c c' t"
  using send_frame_tables [OF assms] send_frame_queue [OF assms] send_frame_quiet [OF assms]
        send_frame_busy [OF assms]
  by (simp add: io_ok_def queue_bounded_def tables_kept_def)

lemma enqueue_io:
  assumes "mg_rpc_enqueue_frame c ci dst f = (ok, c')"
  shows "io_ok c c' []"
  using enqueue_cases [OF assms]
  by (auto simp add: io_ok_def queue_bounded_def tables_kept_def busy_implies_open_def quiet_def)

lemma dispatch_frame_cases:
  assumes "mg_rpc_dispatch_frame env c src dst ident tag key ci enqueue pp pl w = (ok, c', w', t)"
  shows "\<exists>ci1 fd c1 w1 t1 sent c2 t2.
           (case ci of None \<Rightarrow> mg_rpc_get_channel_info_internal_by_dst env c dst w
                     | Some p \<Rightarrow> (Some p, dst, c, w, [])) = (ci1, fd, c1, w1, t1) \<and>
           mg_rpc_send_frame env c1 ci1 (frame_text env c1 src fd ident tag key pp pl) w1 = (sent, c2, w', t2) \<and>
           t = t1 @ t2 \<and>
           (sent \<and> ok \<and> c' = c2 \<or>
            \<not> sent \<and> enqueue \<and> mg_rpc_enqueue_frame c2 ci1 dst (frame_text env c1 src fd ident tag key pp pl) = (ok, c') \<or>
            \<not> sent \<and> \<not> enqueue \<and> \<not> ok \<and> c' = c2)"
proof -
  obtain ci1 fd c1 w1 t1 where res:
    "(case ci of None \<Rightarrow> mg_rpc_get_channel_info_internal_by_dst env c dst w
                     | Some p \<Rightarrow> (Some p, dst, c, w, [])) = (ci1, fd, c1, w1, t1)"
    by (metis prod_cases5)
  obtain sent c2 w2 t2 where snd:
    "mg_rpc_send_frame env c1 ci1 (frame_text env c1 src fd ident tag key pp pl) w1 = (sent, c2, w2, t2)"
    by (metis prod_cases4)
  obtain queued c3 where enq:
    "mg_rpc_enqueue_frame c2 ci1 dst (frame_text env c1 src fd ident tag key pp pl) = (queued, c3)"
    by (metis prod.exhaust)
  from assms res snd enq show ?thesis
    by (auto simp add: mg_rpc_dispatch_frame_def Let_def split: if_splits)
qed

lemma resolve_io:
  assumes "(case ci of None \<Rightarrow> mg_rpc_get_channel_info_internal_by_dst env c dst w
                     | Some p \<Rightarrow> (Some p, dst, c, w, [])) = (ci1, fd, c1, w1, t1)"
  shows "io_ok c c1 t1 \<and> queue c1 = queue c \<and> queue_len c1 = queue_len c \<and> accepted_frames t1 = []"
proof (cases ci)
  case None
  with assms by_dst_io by_dst_queue by_dst_quiet show ?thesis by (metis option.simps(4))
next
  case (Some p)
  with assms show ?thesis by auto
qed

lemma dispatch_frame_io:
  assumes "mg_rpc_dispatch_frame env c src dst ident tag key ci enqueue pp pl w = (ok, c', w', t)"
  shows "io_ok c c' t"
proof -
  from dispatch_frame_cases [OF assms] obtain ci1 fd c1 w1 t1 sent c2 t2 where
    res: "(case ci of None \<Rightarrow> mg_rpc_get_channel_info_internal_by_dst env c dst w
                     | Some p \<Rightarrow> (Some p, dst, c, w, [])) = (ci1, fd, c1, w1, t1)" and
    snd: "mg_rpc_send_frame env c1 ci1 (frame_text env c1 src fd ident tag key pp pl) w1 = (sent, c2, w', t2)" and
    t: "t = t1 @ t2" and
    fin: "sent \<and> ok \<and> c' = c2 \<or>
            \<not> sent \<and> enqueue \<and> mg_rpc_enqueue_frame c2 ci1 dst (frame_text env c1 src fd ident tag key pp pl) = (ok, c') \<or>
            \<not> sent \<and> \<not> enqueue \<and> \<not> ok \<and> c' = c2"
    by blast
  have a: "io_ok c c2 t"
    unfolding t using resolve_io [OF res] send_frame_io [OF snd] by (blast intro: io_ok_trans)
  from fin show ?thesis
  proof (elim disjE conjE)
    assume "mg_rpc_enqueue_frame c2 ci1 dst (frame_text env c1 src fd ident tag key pp pl) = (ok, c')"
    from io_ok_trans_nil [OF a enqueue_io [OF this]] show ?thesis .
  qed (use a in simp_all)
qed

text \<open>The result of a dispatch is true exactly when the frame went to a transport or on the queue.\<close>

lemma dispatch_frame_result:
  assumes "mg_rpc_dispatch_frame env c src dst ident tag key ci enqueue pp pl w = (ok, c', w', t)"
  shows "ok \<longleftrightarrow> accepted_frames t \<noteq> [] \<or> length (queue c') = Suc (length (queue c))"
    and "length (queue c') = length (queue c) \<or> length (queue c') = Suc (length (queue c))"
    and "length (accepted_frames t) \<le> 1"
proof -
  from dispatch_frame_cases [OF assms] obtain ci1 fd c1 w1 t1 sent c2 t2 where
    res: "(case ci of None \<Rightarrow> mg_rpc_get_channel_info_internal_by_dst env c dst w
                     | Some p \<Rightarrow> (Some p, dst, c, w, [])) = (ci1, fd, c1, w1, t1)" and
    snd: "mg_rpc_send_frame env c1 ci1 (frame_text env c1 src fd ident tag key pp pl) w1 = (sent, c2, w', t2)" and
    t: "t = t1 @ t2" and
    fin: "sent \<and> ok \<and> c' = c2 \<or>
            \<not> sent \<and> enqueue \<and> mg_rpc_enqueue_frame c2 ci1 dst (frame_text env c1 src fd ident tag key pp pl) = (ok, c') \<or>
            \<not> sent \<and> \<not> enqueue \<and> \<not> ok \<and> c' = c2"
    by blast
  note r = resolve_io [OF res] and s = send_frame_queue [OF snd] and sq = send_frame_quiet [OF snd]
  have acc: "accepted_frames t = (if sent then [frame_text env c1 src fd ident tag key pp pl] else [])"
    using r sq by (simp add: t)
  have q2: "queue c2 = queue c" using r s by simp
  from fin have main: "(ok \<longleftrightarrow> accepted_frames t \<noteq> [] \<or> length (queue c') = Suc (length (queue c))) \<and>
     (length (queue c') = length (queue c) \<or> length (queue c') = Suc (length (queue c)))"
  proof (elim disjE conjE)
    assume ns: "\<not> sent" and "mg_rpc_enqueue_frame c2 ci1 dst (frame_text env c1 src fd ident tag key pp pl) = (ok, c')"
    from enqueue_cases [OF this(2)] ns acc q2 show ?thesis by auto
  qed (use acc q2 in auto)
  from main show "ok \<longleftrightarrow> accepted_frames t \<noteq> [] \<or> length (queue c') = Suc (length (queue c))" by blast
  from main show "length (queue c') = length (queue c) \<or> length (queue c') = Suc (length (queue c))" by blast
  from acc show "length (accepted_frames t) \<le> 1" by simp
qed

lemma process_queue_entry_io:
  assumes "process_queue_entry env qe c w = (sent, c', w', t)"
  shows "io_ok c c' t \<and> queue c' = queue c \<and> queue_len c' = queue_len c \<and>
         accepted_frames t = (if sent then [qe_frame qe] else [])"
proof -
  obtain ci c1 w1 t1 where res:
    "(case qe_ci qe of
        None \<Rightarrow> (let (r, d, c', w', t) = mg_rpc_get_channel_info_internal_by_dst env c (qe_dst qe) w
                  in (r, c', w', t))
      | Some p \<Rightarrow> (Some p, c, w, [])) = (ci, c1, w1, t1)"
    by (metis prod_cases4)
  have r: "io_ok c c1 t1 \<and> queue c1 = queue c \<and> queue_len c1 = queue_len c \<and> accepted_frames t1 = []"
  proof (cases "qe_ci qe")
    case None
    obtain r d c'' w'' t'' where bd:
      "mg_rpc_get_channel_info_internal_by_dst env c (qe_dst qe) w = (r, d, c'', w'', t'')"
      by (metis prod_cases5)
    with res None have "c1 = c''" "t1 = t''" by simp_all
    with by_dst_io [OF bd] by_dst_queue [OF bd] by_dst_quiet [OF bd] show ?thesis by simp
  next
    case (Some p)
    with res show ?thesis by auto
  qed
  obtain s c2 w2 t2 where snd: "mg_rpc_send_frame env c1 ci (qe_frame qe) w1 = (s, c2, w2, t2)"
    by (metis prod_cases4)
  from assms res snd have eq: "sent = s" "c' = c2" "w' = w2" "t = t1 @ t2"
    by (simp_all add: process_queue_entry_def Let_def)
  from r send_frame_io [OF snd] send_frame_queue [OF snd] send_frame_quiet [OF snd]
  show ?thesis unfolding eq by (auto intro: io_ok_trans)
qed

lemma entries_with_simps [simp]:
  "entries_with b [] oks = []"
  "entries_with b (qe # q) (ok # oks) = (if ok = b then qe # entries_with b q oks else entries_with b q oks)"
  by (simp_all add: entries_with_def)

lemma remove_queue_entry_mid:
  assumes "queue c = pre @ qe # rest" "length pre = i"
  shows "queue (mg_rpc_remove_queue_entry c i) = pre @ rest"
    and "queue_len (mg_rpc_remove_queue_entry c i) = queue_len c - 1"
    and "tables_kept c (mg_rpc_remove_queue_entry c i)"
    and "channels (mg_rpc_remove_queue_entry c i) = channels c"
    and "ci_mem (mg_rpc_remove_queue_entry c i) = ci_mem c"
  using assms by (simp_all add: mg_rpc_remove_queue_entry_def tables_kept_def)

lemma remove_queue_entry_io:
  assumes "queue c = pre @ qe # rest" "length pre = i"
  shows "io_ok c (mg_rpc_remove_queue_entry c i) []"
  using remove_queue_entry_mid [OF assms]
  by (auto simp add: io_ok_def queue_bounded_def busy_implies_open_def tables_kept_def assms(1) quiet_def)

lemma process_queue_loop_props:
  assumes "process_queue_loop env i rest c w = (c', w', t)" "queue c = pre @ rest" "length pre = i"
  shows "io_ok c c' t \<and>
         length (drain_outcomes env i rest c w) = length rest \<and>
         queue c' = pre @ entries_with False rest (drain_outcomes env i rest c w) \<and>
         queue_len c' = queue_len c - int (length (entries_with True rest (drain_outcomes env i rest c w))) \<and>
         accepted_frames t = map qe_frame (entries_with True rest (drain_outcomes env i rest c w))"
  using assms
proof (induction rest arbitrary: i pre c w c' w' t)
  case Nil
  then show ?case by simp
next
  case (Cons qe rest)
  obtain sent c2 w2 t2 where e: "process_queue_entry env qe c w = (sent, c2, w2, t2)"
    by (metis prod_cases4)
  note pe = process_queue_entry_io [OF e]
  have q2: "queue c2 = pre @ qe # rest" using pe Cons.prems(2) by simp
  show ?case
  proof (cases sent)
    case True
    let ?c3 = "mg_rpc_remove_queue_entry c2 i"
    obtain c4 w4 t4 where l: "process_queue_loop env i rest ?c3 w2 = (c4, w4, t4)"
      by (metis prod_cases3)
    from Cons.prems(1) e True l have eq: "c' = c4" "w' = w4" "t = t2 @ t4" by simp_all
    note rm = remove_queue_entry_mid [OF q2 Cons.prems(3)] and rio = remove_queue_entry_io [OF q2 Cons.prems(3)]
    from Cons.IH [OF l rm(1) Cons.prems(3)]
    have ih: "io_ok ?c3 c4 t4"
      "length (drain_outcomes env i rest ?c3 w2) = length rest"
      "queue c4 = pre @ entries_with False rest (drain_outcomes env i rest ?c3 w2)"
      "queue_len c4 = queue_len ?c3 - int (length (entries_with True rest (drain_outcomes env i rest ?c3 w2)))"
      "accepted_frames t4 = map qe_frame (entries_with True rest (drain_outcomes env i rest ?c3 w2))"
      by blast+
    have io: "io_ok c c4 (t2 @ t4)"
      using pe rio ih(1) by (blast intro: io_ok_trans io_ok_trans_nil)
    from io ih pe rm(2) True e show ?thesis unfolding eq by simp
  next
    case False
    obtain c4 w4 t4 where l: "process_queue_loop env (Suc i) rest c2 w2 = (c4, w4, t4)"
      by (metis prod_cases3)
    from Cons.prems(1) e False l have eq: "c' = c4" "w' = w4" "t = t2 @ t4" by simp_all
    have q2': "queue c2 = (pre @ [qe]) @ rest" using q2 by simp
    have len: "length (pre @ [qe]) = Suc i" using Cons.prems(3) by simp
    from Cons.IH [OF l q2' len]
    have ih: "io_ok c2 c4 t4"
      "length (drain_outcomes env (Suc i) rest c2 w2) = length rest"
      "queue c4 = (pre @ [qe]) @ entries_with False rest (drain_outcomes env (Suc i) rest c2 w2)"
      "queue_len c4 = queue_len c2 - int (length (entries_with True rest (drain_outcomes env (Suc i) rest c2 w2)))"
      "accepted_frames t4 = map qe_frame (entries_with True rest (drain_outcomes env (Suc i) rest c2 w2))"
      by blast+
    have io: "io_ok c c4 (t2 @ t4)"
      using pe ih(1) by (blast intro: io_ok_trans)
    from io ih pe False e show ?thesis unfolding eq by simp
  qed
qed

lemma process_queue_io:
  assumes "mg_rpc_process_queue env c w = (c', w', t)"
  shows "io_ok c c' t"
  using process_queue_loop_props [of env 0 "queue c" c w c' w' t "[]"] assms
  by (simp add: mg_rpc_process_queue_def)

lemma purge_queue_loop_props:
  assumes "queue c = pre @ rest" "length pre = i"
  shows "queue (purge_queue_loop p i rest c) = pre @ filter (\<lambda>qe. qe_ci qe \<noteq> Some p) rest \<and>
         queue_len (purge_queue_loop p i rest c) =
           queue_len c - int (length (filter (\<lambda>qe. qe_ci qe = Some p) rest)) \<and>
         tables_kept c (purge_queue_loop p i rest c) \<and>
         channels (purge_queue_loop p i rest c) = channels c \<and>
         ci_mem (purge_queue_loop p i rest c) = ci_mem c"
  using assms
proof (induction rest arbitrary: i pre c)
  case Nil
  then show ?case by simp
next
  case (Cons qe rest)
  show ?case
  proof (cases "qe_ci qe = Some p")
    case True
    note rm = remove_queue_entry_mid [OF Cons.prems]
    from Cons.IH [OF rm(1) Cons.prems(2)] rm True show ?thesis
      by (auto intro: tables_kept_trans)
  next
    case False
    have "queue c = (pre @ [qe]) @ rest" "length (pre @ [qe]) = Suc i"
      using Cons.prems by simp_all
    from Cons.IH [OF this] False show ?thesis by simp
  qed
qed

lemma purge_queue_io: "io_ok c (purge_queue_loop p 0 (queue c) c) []"
proof -
  from purge_queue_loop_props [of c "[]" "queue c" 0 p]
  have *: "queue (purge_queue_loop p 0 (queue c) c) = filter (\<lambda>qe. qe_ci qe \<noteq> Some p) (queue c)"
    "queue_len (purge_queue_loop p 0 (queue c) c) =
           queue_len c - int (length (filter (\<lambda>qe. qe_ci qe = Some p) (queue c)))"
    "tables_kept c (purge_queue_loop p 0 (queue c) c)"
    "channels (purge_queue_loop p 0 (queue c) c) = channels c"
    "ci_mem (purge_queue_loop p 0 (queue c) c) = ci_mem c"
    by simp_all
  have "length (filter (\<lambda>qe. qe_ci qe \<noteq> Some p) (queue c)) + length (filter (\<lambda>qe. qe_ci qe = Some p) (queue c)) = length (queue c)"
    using sum_length_filter_compl [of "\<lambda>qe. qe_ci qe \<noteq> Some p" "queue c"] by simp
  with * show ?thesis
    by (auto simp add: io_ok_def queue_bounded_def busy_implies_open_def tables_kept_def quiet_def)
qed

lemma keeps_refl [simp]: "keeps_invariants c c"
  by (simp add: keeps_invariants_def)

lemma keeps_trans: "keeps_invariants a b \<Longrightarrow> keeps_invariants b c \<Longrightarrow> keeps_invariants a c"
  by (simp add: keeps_invariants_def)

lemma io_ok_keeps: "io_ok c c' t \<Longrightarrow> keeps_invariants c c'"
  by (simp add: io_ok_def keeps_invariants_def tables_kept_def)

lemma keeps_same_io:
  "channels c' = channels c \<Longrightarrow> ci_mem c' = ci_mem c \<Longrightarrow> queue c' = queue c \<Longrightarrow>
   queue_len c' = queue_len c \<Longrightarrow> cfg c' = cfg c \<Longrightarrow> keeps_invariants c c'"
  by (simp add: keeps_invariants_def busy_implies_open_def queue_bounded_def)

lemma ci_update_keeps:
  assumes "is_busy (g (ci_mem c p)) \<longrightarrow> is_open (g (ci_mem c p))"
  shows "keeps_invariants c (ci_update c p g)"
  using assms
  by (auto simp add: keeps_invariants_def busy_implies_open_def queue_bounded_def ci_update_def
        list_all_iff)

lemma ci_update_fields [simp]:
  "channels (ci_update c p g) = channels c"
  "queue (ci_update c p g) = queue c"
  "queue_len (ci_update c p g) = queue_len c"
  "cfg (ci_update c p g) = cfg c"
  "requests (ci_update c p g) = requests c"
  "handlers (ci_update c p g) = handlers c"
  "prehandler (ci_update c p g) = prehandler c"
  "prehandler_arg (ci_update c p g) = prehandler_arg c"
  "local_ids (ci_update c p g) = local_ids c"
  "observers (ci_update c p g) = observers c"
  "next_id (ci_update c p g) = next_id c"
  "ci_mem (ci_update c p g) = (ci_mem c)(p := g (ci_mem c p))"
  by (simp_all add: ci_update_def)

lemma send_errorf_io:
  "send_errorf env c ri code msg w = (ok, c', w', t) \<Longrightarrow> io_ok c c' t"
  unfolding send_errorf_def Let_def by (rule dispatch_frame_io)

lemma send_responsef_io:
  "mg_rpc_send_responsef env c ri res w = (ok, c', w', t) \<Longrightarrow> io_ok c c' t"
  unfolding mg_rpc_send_responsef_def Let_def by (rule dispatch_frame_io)

lemma handle_request_props:
  assumes "mg_rpc_handle_request env c ci frame w = (ok, c', w', t)"
  shows "ok" "tables_kept c c'" "keeps_invariants c c'"
        "list_ex is_request_dispatch t" "\<not> list_ex is_channel_close t" "\<not> list_ex is_result_cb t"
proof -
  let ?ri = "\<lparr>ri_id = frame_id frame, ri_src = frame_src frame, ri_dst = frame_dst frame,
                ri_tag = frame_tag frame, ri_auth = frame_auth frame,
                ri_method = frame_method frame, ri_ch = ci_ch (ci_mem c ci), ri_args_fmt = []\<rparr>"
  have "ok \<and> tables_kept c c' \<and> keeps_invariants c c' \<and>
        list_ex is_request_dispatch t \<and> \<not> list_ex is_channel_close t \<and> \<not> list_ex is_result_cb t"
  proof (cases "find (\<lambda>hi. ri_method ?ri = c_str (hi_method hi)) (handlers c)")
    case None
    obtain r c1 w1 t1 where se:
      "mg_rpc_send_errorf env c ?ri 404 (Some (''No handler for '' @ c_str (frame_method frame))) w = (r, c1, w1, t1)"
      by (metis prod_cases4)
    from assms None se have eq: "ok" "c' = c1" "t = LogError ''No handler for'' # t1"
      by (simp_all add: mg_rpc_handle_request_def Let_def)
    from se have io: "io_ok c c1 t1"
      unfolding mg_rpc_send_errorf_def by (rule send_errorf_io)
    then have "quiet t1" by (simp add: io_ok_def)
    then have "\<not> list_ex is_channel_close t1 \<and> \<not> list_ex is_result_cb t1"
      by (auto simp add: quiet_def list_all_iff list_ex_iff)
    with io eq show ?thesis by (simp add: io_ok_keeps) (simp add: io_ok_def)
  next
    case (Some hi)
    show ?thesis
    proof (cases "prehandler c")
      case None
      with assms Some show ?thesis
        by (auto simp add: mg_rpc_handle_request_def Let_def)
    next
      case (Some ph)
      obtain r w1 where pr: "env_prehandler env w ph (prehandler_arg c) (?ri\<lparr>ri_args_fmt := hi_args_fmt hi\<rparr>) (frame_args frame) = (r, w1)"
        by (metis prod.exhaust)
      from assms \<open>find (\<lambda>hi. ri_method ?ri = c_str (hi_method hi)) (handlers c) = Some hi\<close> Some pr
      show ?thesis
        by (cases r) (auto simp add: mg_rpc_handle_request_def Let_def)
    qed
  qed
  then show "ok" "tables_kept c c'" "keeps_invariants c c'"
        "list_ex is_request_dispatch t" "\<not> list_ex is_channel_close t" "\<not> list_ex is_result_cb t"
    by blast+
qed

lemma handle_response_cases:
  assumes "mg_rpc_handle_response c ident res ec em = (ok, c', t)"
  shows "(ident = 0 \<and> \<not> ok \<and> c' = c \<and> t = [LogError ''Response without an ID'']) \<or>
         (ident \<noteq> 0 \<and> find (\<lambda>ri. sri_id ri = ident) (requests c) = None \<and> ok \<and> c' = c \<and> t = []) \<or>
         (ident \<noteq> 0 \<and> ok \<and> (\<exists>ri. find (\<lambda>ri. sri_id ri = ident) (requests c) = Some ri \<and>
            c' = c\<lparr>requests := remove1 ri (requests c)\<rparr> \<and>
            t = [ResultCb (sri_cb ri) (sri_cb_arg ri) res ec em]))"
  using assms
  by (auto simp add: mg_rpc_handle_response_def split: if_splits option.splits)

lemma handle_response_props:
  assumes "mg_rpc_handle_response c ident res ec em = (ok, c', t)"
  shows "ok \<longleftrightarrow> ident \<noteq> 0" "keeps_invariants c c'"
        "\<not> list_ex is_request_dispatch t" "\<not> list_ex is_channel_close t"
  using handle_response_cases [OF assms]
  by (auto intro!: keeps_same_io)

lemma handle_frame_cases:
  assumes "mg_rpc_handle_frame env c ci frame w = (ok, c', w', t)"
  shows "(\<not> is_open (ci_mem c ci) \<and> \<not> ok \<and> c' = c \<and> w' = w \<and> t = [LogError ''Ignored frame from closed channel'']) \<or>
         (is_open (ci_mem c ci) \<and> frame_dst frame \<noteq> [] \<and> \<not> is_local_id c (frame_dst frame) \<and>
            \<not> ok \<and> c' = c \<and> w' = w \<and> t = [LogError ''Wrong dst'']) \<or>
         (is_open (ci_mem c ci) \<and> (frame_dst frame = [] \<or> is_local_id c (frame_dst frame)) \<and>
            frame_method frame \<noteq> [] \<and>
            mg_rpc_handle_request env
              (if ci_dst (ci_mem c ci) = [] then ci_update c ci (\<lambda>e. e\<lparr>ci_dst := frame_src frame\<rparr>) else c)
              ci frame w = (ok, c', w', t)) \<or>
         (is_open (ci_mem c ci) \<and> (frame_dst frame = [] \<or> is_local_id c (frame_dst frame)) \<and>
            frame_method frame = [] \<and> w' = w \<and>
            mg_rpc_handle_response
              (if ci_dst (ci_mem c ci) = [] then ci_update c ci (\<lambda>e. e\<lparr>ci_dst := frame_src frame\<rparr>) else c)
              (frame_id frame) (frame_result frame) (frame_error_code frame) (frame_error_msg frame)
              = (ok, c', t))"
proof -
  obtain ok2 c2 t2 where hr: "mg_rpc_handle_response
              (if ci_dst (ci_mem c ci) = [] then ci_update c ci (\<lambda>e. e\<lparr>ci_dst := frame_src frame\<rparr>) else c)
              (frame_id frame) (frame_result frame) (frame_error_code frame) (frame_error_msg frame)
              = (ok2, c2, t2)"
    by (metis prod_cases3)
  from assms hr show ?thesis
    unfolding mg_rpc_handle_frame_def Let_def
    by (simp split: if_splits)
qed

lemma bind_dst_keeps:
  "keeps_invariants c (if ci_dst (ci_mem c ci) = [] then ci_update c ci (\<lambda>e. e\<lparr>ci_dst := frame_src frame\<rparr>) else c)"
  by (simp add: ci_update_keeps keeps_invariants_def busy_implies_open_def queue_bounded_def
        list_all_iff)

lemma handle_frame_props:
  assumes "mg_rpc_handle_frame env c ci frame w = (ok, c', w', t)"
  shows "keeps_invariants c c'" "\<not> list_ex is_channel_close t"
        "ok \<longleftrightarrow> is_open (ci_mem c ci) \<and> (frame_dst frame = [] \<or> is_local_id c (frame_dst frame)) \<and>
               (frame_method frame \<noteq> [] \<or> frame_id frame \<noteq> 0)"
proof -
  let ?c1 = "if ci_dst (ci_mem c ci) = [] then ci_update c ci (\<lambda>e. e\<lparr>ci_dst := frame_src frame\<rparr>) else c"
  from handle_frame_cases [OF assms] consider
      (closed) "\<not> is_open (ci_mem c ci)" "\<not> ok" "c' = c" "t = [LogError ''Ignored frame from closed channel'']"
    | (wrong) "is_open (ci_mem c ci)" "frame_dst frame \<noteq> []" "\<not> is_local_id c (frame_dst frame)"
        "\<not> ok" "c' = c" "t = [LogError ''Wrong dst'']"
    | (req) "is_open (ci_mem c ci)" "frame_dst frame = [] \<or> is_local_id c (frame_dst frame)"
        "frame_method frame \<noteq> []" "mg_rpc_handle_request env ?c1 ci frame w = (ok, c', w', t)"
    | (resp) "is_open (ci_mem c ci)" "frame_dst frame = [] \<or> is_local_id c (frame_dst frame)"
        "frame_method frame = []"
        "mg_rpc_handle_response ?c1 (frame_id frame) (frame_result frame) (frame_error_code frame) (frame_error_msg frame) = (ok, c', t)"
    by blast
  then have "keeps_invariants c c' \<and> \<not> list_ex is_channel_close t \<and>
        (ok \<longleftrightarrow> is_open (ci_mem c ci) \<and> (frame_dst frame = [] \<or> is_local_id c (frame_dst frame)) \<and>
               (frame_method frame \<noteq> [] \<or> frame_id frame \<noteq> 0))"
  proof cases
    case closed
    then show ?thesis by simp
  next
    case wrong
    then show ?thesis by simp
  next
    case req
    from handle_request_props [OF req(4)] req(1-3) bind_dst_keeps [of c ci frame]
    show ?thesis by (auto intro: keeps_trans)
  next
    case resp
    from handle_response_props [OF resp(4)] resp(1-3) bind_dst_keeps [of c ci frame]
    show ?thesis by (auto intro: keeps_trans)
  qed
  then show "keeps_invariants c c'" "\<not> list_ex is_channel_close t"
        "ok \<longleftrightarrow> is_open (ci_mem c ci) \<and> (frame_dst frame = [] \<or> is_local_id c (frame_dst frame)) \<and>
               (frame_method frame \<noteq> [] \<or> frame_id frame \<noteq> 0)"
    by blast+
qed

lemma ev_handler_keeps:
  assumes "mg_rpc_ev_handler env c ch ev w = (c', w', t)"
  shows "keeps_invariants c c'"
proof (cases "find (\<lambda>p. ci_ch (ci_mem c p) = ch) (channels c)")
  case None
  with assms show ?thesis by (simp add: mg_rpc_ev_handler_def)
next
  case (Some ci)
  show ?thesis
  proof (cases ev)
    case MG_RPC_CHANNEL_OPEN
    let ?c1 = "ci_update c ci (\<lambda>e. e\<lparr>is_open := True, is_busy := False\<rparr>)"
    obtain c2 w2 t2 where pq: "mg_rpc_process_queue env ?c1 w = (c2, w2, t2)"
      by (metis prod_cases3)
    from assms Some MG_RPC_CHANNEL_OPEN pq have "c' = c2"
      by (simp add: mg_rpc_ev_handler_def Let_def)
    moreover have "keeps_invariants c ?c1" by (rule ci_update_keeps) simp
    ultimately show ?thesis using io_ok_keeps [OF process_queue_io [OF pq]]
      by (blast intro: keeps_trans)
  next
    case (MG_RPC_CHANNEL_FRAME_RECD f)
    show ?thesis
    proof (cases "mg_rpc_parse_frame env f")
      case None
      with assms Some MG_RPC_CHANNEL_FRAME_RECD show ?thesis
        by (simp add: mg_rpc_ev_handler_def)
    next
      case (Some frame)
      obtain ok c1 w1 t1 where hf: "mg_rpc_handle_frame env c ci frame w = (ok, c1, w1, t1)"
        by (metis prod_cases4)
      from assms \<open>find (\<lambda>p. ci_ch (ci_mem c p) = ch) (channels c) = Some ci\<close>
        MG_RPC_CHANNEL_FRAME_RECD Some hf have "c' = c1"
        by (simp add: mg_rpc_ev_handler_def Let_def split: if_splits)
      with handle_frame_props(1) [OF hf] show ?thesis by simp
    qed
  next
    case (MG_RPC_CHANNEL_FRAME_RECD_PARSED frame)
    obtain ok c1 w1 t1 where hf: "mg_rpc_handle_frame env c ci frame w = (ok, c1, w1, t1)"
      by (metis prod_cases4)
    from assms Some MG_RPC_CHANNEL_FRAME_RECD_PARSED hf have "c' = c1"
      by (simp add: mg_rpc_ev_handler_def Let_def split: if_splits)
    with handle_frame_props(1) [OF hf] show ?thesis by simp
  next
    case (MG_RPC_CHANNEL_FRAME_SENT success)
    let ?c1 = "ci_update c ci (\<lambda>e. e\<lparr>is_busy := False\<rparr>)"
    from assms Some MG_RPC_CHANNEL_FRAME_SENT have pq: "mg_rpc_process_queue env ?c1 w = (c', w', t)"
      by (simp add: mg_rpc_ev_handler_def Let_def)
    have "keeps_invariants c ?c1" by (rule ci_update_keeps) simp
    then show ?thesis using io_ok_keeps [OF process_queue_io [OF pq]]
      by (blast intro: keeps_trans)
  next
    case MG_RPC_CHANNEL_CLOSED
    let ?c1 = "ci_update c ci (\<lambda>e. e\<lparr>is_open := False, is_busy := False\<rparr>)"
    let ?c2 = "purge_queue_loop ci 0 (queue ?c1) ?c1"
    let ?c3 = "?c2\<lparr>channels := removeAll ci (channels ?c2)\<rparr>"
    let ?c4 = "ci_update ?c3 ci (\<lambda>e. zero_ci)"
    have k1: "keeps_invariants c ?c1" by (rule ci_update_keeps) simp
    have k2: "keeps_invariants ?c1 ?c2" by (rule io_ok_keeps [OF purge_queue_io])
    have k3: "keeps_invariants ?c2 ?c3"
      by (auto simp add: keeps_invariants_def busy_implies_open_def queue_bounded_def list_all_iff)
    have k4: "keeps_invariants ?c3 ?c4" by (rule ci_update_keeps) (simp add: zero_ci_def)
    from assms Some MG_RPC_CHANNEL_CLOSED have "c' = ?c1 \<or> c' = ?c4"
      by (simp add: mg_rpc_ev_handler_def Let_def split: if_splits)
    with k1 k2 k3 k4 show ?thesis by (blast intro: keeps_trans)
  qed
qed

lemma broadcast_loop_io:
  assumes "broadcast_loop env cis src dst ident tag key pp args result c w = (r, c', w', t)"
  shows "io_ok c c' t"
  using assms
proof (induction cis arbitrary: result c w r c' w' t)
  case Nil
  then show ?case by simp
next
  case (Cons ci cis)
  show ?case
  proof (cases "env_is_broadcast_enabled env w (ci_ch (ci_mem c ci)) \<noteq> Some True")
    case True
    with Cons.prems have "broadcast_loop env cis src dst ident tag key pp args result c w = (r, c', w', t)"
      by simp
    then show ?thesis by (rule Cons.IH)
  next
    case False
    obtain r1 c1 w1 t1 where d:
      "mg_rpc_dispatch_frame env c src dst ident tag key (Some ci) False pp args w = (r1, c1, w1, t1)"
      by (metis prod_cases4)
    obtain r2 c2 w2 t2 where l:
      "broadcast_loop env cis src dst ident tag key pp args (result \<or> r1) c1 w1 = (r2, c2, w2, t2)"
      by (metis prod_cases4)
    from Cons.prems False d l have eq: "c' = c2" "t = t1 @ t2" by simp_all
    from dispatch_frame_io [OF d] Cons.IH [OF l] show ?thesis
      unfolding eq by (rule io_ok_trans)
  qed
qed

lemma get_id_keeps:
  "mg_rpc_get_id env c w = (ident, c0, w0) \<Longrightarrow>
     keeps_invariants c c0 \<and> requests c0 = requests c \<and> ident = next_id c0 \<and>
     next_id c0 = next_id c + word_of_int (fst (env_rand env w)) \<and> channels c0 = channels c \<and>
     ci_mem c0 = ci_mem c \<and> queue c0 = queue c"
  by (auto simp add: mg_rpc_get_id_def Let_def split: prod.splits intro!: keeps_same_io)

lemma if_nonempty: "(if xs \<noteq> [] then xs else []) = xs"
  by simp

lemma vcallf_body_cases:
  assumes "vcallf_body env c meth cb cb_arg (Some opt) args w = Inr res"
  obtains ident c0 w0 wa result c1 w1 t1 where
    "mg_rpc_get_id env c w = (ident, c0, w0)"
    "(if \<not> opts_broadcast opt
      then mg_rpc_dispatch_frame env c0
             (if opts_src opt = [] then c_str (cfg_id (cfg c0)) else opts_src opt)
             (opts_dst opt) ident (opts_tag opt) (opts_key opt) None
             (\<not> opts_no_queue opt) (call_prefix env (cb \<noteq> None) meth (args \<noteq> None)) args wa
      else broadcast_loop env (channels c0)
             (if opts_src opt = [] then c_str (cfg_id (cfg c0)) else opts_src opt)
             (opts_dst opt) ident (opts_tag opt) (opts_key opt)
             (call_prefix env (cb \<noteq> None) meth (args \<noteq> None)) args False c0 wa)
       = (result, c1, w1, t1)"
    "res = (case cb of
              Some f \<Rightarrow>
                if result
                then (True, c1\<lparr>requests := \<lparr>sri_id = ident, sri_cb = f, sri_cb_arg = cb_arg\<rparr> # requests c1\<rparr>, w1, t1)
                else (False, c1, w1, t1)
            | None \<Rightarrow> (False, c1, w1, t1))"
proof -
  obtain ident c0 w0 where g: "mg_rpc_get_id env c w = (ident, c0, w0)"
    by (metis prod_cases3)
  define wa where "wa = (case cb of None \<Rightarrow> w0 | Some f \<Rightarrow> snd (env_calloc env w0))"
  obtain result c1 w1 t1 where d: "(if \<not> opts_broadcast opt
            then mg_rpc_dispatch_frame env c0
                   (if opts_src opt = [] then c_str (cfg_id (cfg c0)) else opts_src opt)
                   (opts_dst opt) ident (opts_tag opt) (opts_key opt) None
                   (\<not> opts_no_queue opt) (call_prefix env (cb \<noteq> None) meth (args \<noteq> None)) args wa
            else broadcast_loop env (channels c0)
                   (if opts_src opt = [] then c_str (cfg_id (cfg c0)) else opts_src opt)
                   (opts_dst opt) ident (opts_tag opt) (opts_key opt)
                   (call_prefix env (cb \<noteq> None) meth (args \<noteq> None)) args False c0 wa)
             = (result, c1, w1, t1)"
    by (metis prod_cases4)
  have "res = (case cb of
              Some f \<Rightarrow>
                if result
                then (True, c1\<lparr>requests := \<lparr>sri_id = ident, sri_cb = f, sri_cb_arg = cb_arg\<rparr> # requests c1\<rparr>, w1, t1)
                else (False, c1, w1, t1)
            | None \<Rightarrow> (False, c1, w1, t1))"
  proof (cases cb)
    case None
    with assms g d show ?thesis
      unfolding vcallf_body_def Let_def wa_def
      by (simp add: if_nonempty split: if_splits option.splits)
  next
    case (Some f)
    obtain p w2 where al: "env_calloc env w0 = (p, w2)" by (cases "env_calloc env w0")
    with assms g d Some show ?thesis
      unfolding vcallf_body_def Let_def wa_def
      by (simp add: if_nonempty split: if_splits option.splits)
  qed
  with g d show thesis by (rule that)
qed

lemma vcallf_body_keeps:
  assumes "vcallf_body env c meth cb cb_arg opts args w = Inr (b, c', w', t)"
  shows "keeps_invariants c c'"
proof (cases opts)
  case None
  with assms show ?thesis
    by (simp add: vcallf_body_def Let_def split: prod.splits option.splits if_splits)
next
  case (Some opt)
  show ?thesis
  proof (cases rule: vcallf_body_cases [OF assms [unfolded Some]])
    case (1 ident c0 w0 wa result c1 w1 t1)
    have io: "io_ok c0 c1 t1"
      using "1"(2) by (cases "opts_broadcast opt") (auto dest: dispatch_frame_io broadcast_loop_io)
    have k: "keeps_invariants c c1"
      using get_id_keeps [OF "1"(1)] io_ok_keeps [OF io] by (blast intro: keeps_trans)
    from "1"(3) have "c' = c1 \<or> (\<exists>x. c' = c1\<lparr>requests := x\<rparr>)"
      by (auto split: option.splits if_splits)
    then have "keeps_invariants c1 c'" by (auto intro!: keeps_same_io)
    with k show ?thesis by (rule keeps_trans)
  qed
qed

lemma add_channel_keeps:
  assumes "mg_rpc_add_channel env c dst ch w = (c', w')"
  shows "keeps_invariants c c'"
  using assms
  by (auto simp add: mg_rpc_add_channel_def mg_rpc_add_channel_internal_def Let_def
        keeps_invariants_def busy_implies_open_def queue_bounded_def list_all_iff
        split: prod.splits)

lemma is_connected_keeps:
  assumes "mg_rpc_is_connected env c w = (b, c', w', t)"
  shows "keeps_invariants c c'"
proof -
  obtain ci d c1 w1 t1 where bd:
    "mg_rpc_get_channel_info_internal_by_dst env c (env_dst_default env) w = (ci, d, c1, w1, t1)"
    by (metis prod_cases5)
  with assms have "c' = c1" by (simp add: mg_rpc_is_connected_def)
  with io_ok_keeps [OF by_dst_io [OF bd]] show ?thesis by simp
qed

lemma can_send_keeps:
  assumes "mg_rpc_can_send env c w = (b, c', w', t)"
  shows "keeps_invariants c c'"
proof -
  obtain ci d c1 w1 t1 where bd:
    "mg_rpc_get_channel_info_internal_by_dst env c (env_dst_default env) w = (ci, d, c1, w1, t1)"
    by (metis prod_cases5)
  with assms have "c' = c1" by (simp add: mg_rpc_can_send_def)
  with io_ok_keeps [OF by_dst_io [OF bd]] show ?thesis by simp
qed

lemma create_invariants:
  "cfg (mg_rpc_create config mem) = config"
  "busy_implies_open (mg_rpc_create config mem)"
  "queue (mg_rpc_create config mem) = []"
  "queue_len (mg_rpc_create config mem) = 0"
  by (simp_all add: mg_rpc_create_def mg_rpc_add_local_id_def busy_implies_open_def)

lemma reachable_keeps:
  assumes "reachable env config c"
  shows "cfg c = config \<and> busy_implies_open c \<and> (0 \<le> cfg_max_queue_length config \<longrightarrow> queue_bounded c)"
  using assms
proof (induction rule: reachable.induct)
  case (r_create mem)
  show ?case by (simp add: create_invariants queue_bounded_def)
next
  case (r_add_local_id c ident)
  then show ?case
    by (auto simp add: mg_rpc_add_local_id_def busy_implies_open_def queue_bounded_def)
next
  case (r_add_handler c meth args_fmt cb cb_arg)
  then show ?case
    by (auto simp add: mg_rpc_add_handler_def busy_implies_open_def queue_bounded_def)
next
  case (r_set_prehandler c pcb cb_arg)
  then show ?case
    by (auto simp add: mg_rpc_set_prehandler_def busy_implies_open_def queue_bounded_def)
next
  case (r_add_observer c cb cb_arg)
  then show ?case
    by (auto simp add: mg_rpc_add_observer_def busy_implies_open_def queue_bounded_def)
next
  case (r_remove_observer c cb cb_arg)
  then show ?case
    by (auto simp add: mg_rpc_remove_observer_def busy_implies_open_def queue_bounded_def)
next
  case (r_add_channel c dst ch w c' w')
  with add_channel_keeps [OF r_add_channel.hyps(2)] show ?case
    by (simp add: keeps_invariants_def)
next
  case (r_is_connected c w b c' w' t)
  with is_connected_keeps [OF r_is_connected.hyps(2)] show ?case
    by (simp add: keeps_invariants_def)
next
  case (r_can_send c w b c' w' t)
  with can_send_keeps [OF r_can_send.hyps(2)] show ?case
    by (simp add: keeps_invariants_def)
next
  case (r_ev_handler c ch ev w c' w' t)
  with ev_handler_keeps [OF r_ev_handler.hyps(2)] show ?case
    by (simp add: keeps_invariants_def)
next
  case (r_vcallf c meth rcb cb_arg opts args w b c' w' t)
  with vcallf_body_keeps [OF r_vcallf.hyps(2)] show ?case
    by (simp add: keeps_invariants_def)
next
  case (r_send_responsef c ri result_json w b c' w' t)
  with io_ok_keeps [OF send_responsef_io [OF r_send_responsef.hyps(2)]] show ?case
    by (simp add: keeps_invariants_def)
next
  case (r_send_errorf c ri error_code msg w b c' w' t)
  with io_ok_keeps [OF send_errorf_io [OF r_send_errorf.hyps(2)]] show ?case
    by (simp add: keeps_invariants_def)
qed

section \<open>The claims about frames, calls, the queue and the channels\<close>

text \<open>
  Claim C2. Whenever handling an inbound frame shows a request dispatch (the pre-handler
  or a handler is called, or the missing handler is reported), the frame's \<open>dst\<close> is
  empty or a member of the local-identity set. A frame whose \<open>dst\<close> is neither is
  dropped: the handling fails, the state (the channel's destination included) and the
  world are unchanged, and no request is dispatched and no result callback called. A
  request on an open channel with an acceptable \<open>dst\<close> is dispatched.
\<close>

theorem frame_for_another_identity_is_dropped:
  assumes "mg_rpc_handle_frame env c ci frame w = (ok, c', w', t)"
  shows "(list_ex is_request_dispatch t \<longrightarrow>
            frame_dst frame = [] \<or> frame_dst frame \<in> local_identity_set c) \<and>
         (frame_dst frame \<noteq> [] \<and> frame_dst frame \<notin> local_identity_set c \<longrightarrow>
            \<not> ok \<and> c' = c \<and> w' = w \<and> \<not> list_ex is_request_dispatch t \<and> \<not> list_ex is_result_cb t) \<and>
         (is_open (ci_mem c ci) \<and> frame_method frame \<noteq> [] \<and>
          (frame_dst frame = [] \<or> frame_dst frame \<in> local_identity_set c) \<longrightarrow>
            list_ex is_request_dispatch t)"
proof -
  let ?c1 = "if ci_dst (ci_mem c ci) = [] then ci_update c ci (\<lambda>e. e\<lparr>ci_dst := frame_src frame\<rparr>) else c"
  from handle_frame_cases [OF assms] consider
      (closed) "\<not> is_open (ci_mem c ci)" "\<not> ok" "c' = c" "w' = w" "t = [LogError ''Ignored frame from closed channel'']"
    | (wrong) "is_open (ci_mem c ci)" "frame_dst frame \<noteq> []" "\<not> is_local_id c (frame_dst frame)"
        "\<not> ok" "c' = c" "w' = w" "t = [LogError ''Wrong dst'']"
    | (req) "is_open (ci_mem c ci)" "frame_dst frame = [] \<or> is_local_id c (frame_dst frame)"
        "frame_method frame \<noteq> []" "mg_rpc_handle_request env ?c1 ci frame w = (ok, c', w', t)"
    | (resp) "is_open (ci_mem c ci)" "frame_dst frame = [] \<or> is_local_id c (frame_dst frame)"
        "frame_method frame = []"
        "mg_rpc_handle_response ?c1 (frame_id frame) (frame_result frame) (frame_error_code frame) (frame_error_msg frame) = (ok, c', t)"
    by blast
  then show ?thesis
  proof cases
    case closed
    then show ?thesis by simp
  next
    case wrong
    then show ?thesis by (simp add: is_local_id_iff)
  next
    case req
    from handle_request_props(4) [OF req(4)] req(1-3) show ?thesis
      by (auto simp add: is_local_id_iff)
  next
    case resp
    from handle_response_props(3) [OF resp(4)] resp(1-3) show ?thesis
      by (auto simp add: is_local_id_iff)
  qed
qed

theorem frame_for_another_identity_is_dropped_witness:
  "mg_rpc_handle_frame test_env test_rpc 10 frame_foreign test_world0 =
     (False, test_rpc, test_world0, [LogError ''Wrong dst'']) \<and>
   frame_dst frame_foreign \<notin> local_identity_set test_rpc \<and>
   frame_dst frame_nope \<in> local_identity_set test_rpc \<and>
   list_ex is_request_dispatch
     (snd (snd (snd (mg_rpc_handle_frame test_env test_rpc 10 frame_nope test_world0))))"
proof -
  have a: "mg_rpc_handle_frame test_env test_rpc 10 frame_foreign test_world0 =
     (False, test_rpc, test_world0, [LogError ''Wrong dst''])"
    by (simp add: eval_defs)
  have b: "is_open (ci_mem test_rpc 10) \<and> frame_method frame_nope \<noteq> [] \<and> frame_dst frame_foreign \<noteq> []"
    by (simp add: eval_defs)
  have c: "\<not> is_local_id test_rpc (frame_dst frame_foreign)" "is_local_id test_rpc (frame_dst frame_nope)"
    by (simp_all add: eval_defs)
  obtain ok c' w' t where d: "mg_rpc_handle_frame test_env test_rpc 10 frame_nope test_world0 = (ok, c', w', t)"
    by (metis prod_cases4)
  from frame_for_another_identity_is_dropped [OF d] frame_for_another_identity_is_dropped [OF a]
    a b c d show ?thesis
    by (simp add: is_local_id_iff)
qed







lemma quiet_no_result_cb: "quiet t \<Longrightarrow> \<not> list_ex is_result_cb t"
  by (auto simp add: quiet_def list_all_iff list_ex_iff)

lemma observers_no_result_cb [simp]: "\<not> list_ex is_result_cb (mg_rpc_call_observers c ev a)"
  by (simp add: mg_rpc_call_observers_def list_ex_iff image_iff)

lemma close_no_result_cb [simp]: "\<not> list_ex is_result_cb (close_if_not_persistent env w ch)"
  by (simp add: close_if_not_persistent_def)

lemma filter_empty_no_ex: "\<not> list_ex P t \<Longrightarrow> filter P t = []"
  by (simp add: list_ex_iff filter_empty_conv)

lemma process_queue_requests:
  assumes "mg_rpc_process_queue env c w = (c', w', t)"
  shows "requests c' = requests c \<and> \<not> list_ex is_result_cb t"
  using process_queue_io [OF assms]
  by (simp add: io_ok_def tables_kept_def quiet_no_result_cb)

lemma find_sri_id: "find (\<lambda>r. sri_id r = i) rs = Some ri \<Longrightarrow> sri_id ri = i"
  by (auto simp add: find_Some_iff)

lemma handle_frame_requests:
  assumes "mg_rpc_handle_frame env c ci frame w = (ok, c', w', t)"
  shows "(requests c' = requests c \<and> \<not> list_ex is_result_cb t) \<or> one_completed c c' t"
proof -
  let ?c1 = "if ci_dst (ci_mem c ci) = [] then ci_update c ci (\<lambda>e. e\<lparr>ci_dst := frame_src frame\<rparr>) else c"
  have r1: "requests ?c1 = requests c" by simp
  from handle_frame_cases [OF assms] consider
      (closed) "c' = c" "t = [LogError ''Ignored frame from closed channel'']"
    | (wrong) "c' = c" "t = [LogError ''Wrong dst'']"
    | (req) "mg_rpc_handle_request env ?c1 ci frame w = (ok, c', w', t)"
    | (resp) "mg_rpc_handle_response ?c1 (frame_id frame) (frame_result frame) (frame_error_code frame) (frame_error_msg frame) = (ok, c', t)"
    by blast
  then show ?thesis
  proof cases
    case closed
    then show ?thesis by simp
  next
    case wrong
    then show ?thesis by simp
  next
    case req
    from handle_request_props(2,6) [OF req] r1 show ?thesis
      by (simp add: tables_kept_def)
  next
    case resp
    from handle_response_cases [OF resp] consider
        (a) "c' = ?c1" "t = [LogError ''Response without an ID''] \<or> t = []"
      | (b) ri where "frame_id frame \<noteq> 0"
          "find (\<lambda>ri. sri_id ri = frame_id frame) (requests ?c1) = Some ri"
          "c' = ?c1\<lparr>requests := remove1 ri (requests ?c1)\<rparr>"
          "t = [ResultCb (sri_cb ri) (sri_cb_arg ri) (frame_result frame) (frame_error_code frame) (frame_error_msg frame)]"
      by blast
    then show ?thesis
    proof cases
      case a
      with r1 show ?thesis by auto
    next
      case b
      from b(2) have i: "sri_id ri = frame_id frame" by (rule find_sri_id)
      have "one_completed c c' t"
        unfolding one_completed_def
        apply (rule exI [of _ ri])
        apply (rule exI [of _ "frame_result frame"])
        apply (rule exI [of _ "frame_error_code frame"])
        apply (rule exI [of _ "frame_error_msg frame"])
        using b i r1 by simp
      then show ?thesis ..
    qed
  qed
qed

lemma one_completed_append:
  "one_completed c c' t \<Longrightarrow> \<not> list_ex is_result_cb t2 \<Longrightarrow> one_completed c c' (t @ t2)"
  by (simp add: one_completed_def filter_empty_no_ex)

lemma frame_tail_requests:
  assumes "mg_rpc_handle_frame env c ci frame w = (ok, c1, w1, t1)" and "\<not> list_ex is_result_cb tr"
  shows "(requests c1 = requests c \<and> \<not> list_ex is_result_cb (t1 @ tr)) \<or> one_completed c c1 (t1 @ tr)"
  using handle_frame_requests [OF assms(1)] assms(2) one_completed_append [of c c1 t1 tr]
  by auto

lemma ev_handler_requests:
  assumes "mg_rpc_ev_handler env c ch ev w = (c', w', t)"
  shows "(requests c' = requests c \<and> \<not> list_ex is_result_cb t) \<or> one_completed c c' t"
proof (cases "find (\<lambda>p. ci_ch (ci_mem c p) = ch) (channels c)")
  case None
  with assms show ?thesis by (simp add: mg_rpc_ev_handler_def)
next
  case (Some ci)
  show ?thesis
  proof (cases ev)
    case MG_RPC_CHANNEL_OPEN
    let ?c1 = "ci_update c ci (\<lambda>e. e\<lparr>is_open := True, is_busy := False\<rparr>)"
    obtain c2 w2 t2 where pq: "mg_rpc_process_queue env ?c1 w = (c2, w2, t2)"
      by (metis prod_cases3)
    from assms Some MG_RPC_CHANNEL_OPEN pq process_queue_requests [OF pq] show ?thesis
      by (auto simp add: mg_rpc_ev_handler_def Let_def)
  next
    case (MG_RPC_CHANNEL_FRAME_RECD f)
    show ?thesis
    proof (cases "mg_rpc_parse_frame env f")
      case None
      with assms Some MG_RPC_CHANNEL_FRAME_RECD show ?thesis
        by (auto simp add: mg_rpc_ev_handler_def)
    next
      case (Some frame)
      obtain ok c1 w1 t1 where hf: "mg_rpc_handle_frame env c ci frame w = (ok, c1, w1, t1)"
        by (metis prod_cases4)
      from assms \<open>find (\<lambda>p. ci_ch (ci_mem c p) = ch) (channels c) = Some ci\<close>
        MG_RPC_CHANNEL_FRAME_RECD Some hf
      have "c' = c1 \<and> (t = t1 @ [] \<or> t = t1 @ LogError ''INVALID FRAME'' # close_if_not_persistent env w1 ch)"
        by (auto simp add: mg_rpc_ev_handler_def Let_def split: if_splits)
      with frame_tail_requests [OF hf, of "[]"]
        frame_tail_requests [OF hf, of "LogError ''INVALID FRAME'' # close_if_not_persistent env w1 ch"]
      show ?thesis by auto
    qed
  next
    case (MG_RPC_CHANNEL_FRAME_RECD_PARSED frame)
    obtain ok c1 w1 t1 where hf: "mg_rpc_handle_frame env c ci frame w = (ok, c1, w1, t1)"
      by (metis prod_cases4)
    from assms Some MG_RPC_CHANNEL_FRAME_RECD_PARSED hf
    have "c' = c1 \<and> (t = t1 @ [] \<or> t = t1 @ LogError ''INVALID PARSED FRAME'' # close_if_not_persistent env w1 ch)"
      by (auto simp add: mg_rpc_ev_handler_def Let_def split: if_splits)
    with frame_tail_requests [OF hf, of "[]"]
      frame_tail_requests [OF hf, of "LogError ''INVALID PARSED FRAME'' # close_if_not_persistent env w1 ch"]
    show ?thesis by auto
  next
    case (MG_RPC_CHANNEL_FRAME_SENT success)
    let ?c1 = "ci_update c ci (\<lambda>e. e\<lparr>is_busy := False\<rparr>)"
    from assms Some MG_RPC_CHANNEL_FRAME_SENT have pq: "mg_rpc_process_queue env ?c1 w = (c', w', t)"
      by (simp add: mg_rpc_ev_handler_def Let_def)
    from process_queue_requests [OF pq] show ?thesis by simp
  next
    case MG_RPC_CHANNEL_CLOSED
    let ?c1 = "ci_update c ci (\<lambda>e. e\<lparr>is_open := False, is_busy := False\<rparr>)"
    from purge_queue_loop_props [of ?c1 "[]" "queue ?c1" 0 ci]
    have "requests (purge_queue_loop ci 0 (queue ?c1) ?c1) = requests c"
      by (simp add: tables_kept_def)
    with assms Some MG_RPC_CHANNEL_CLOSED show ?thesis
      by (auto simp add: mg_rpc_ev_handler_def Let_def split: if_splits)
  qed
qed

lemma vcallf_body_requests:
  assumes "vcallf_body env c meth cb cb_arg opts args w = Inr (ok, c', w', t)"
  shows "\<not> list_ex is_result_cb t \<and>
         (requests c' = requests c \<or>
          (\<exists>f. cb = Some f \<and> ok \<and>
             requests c' = \<lparr>sri_id = next_id c', sri_cb = f, sri_cb_arg = cb_arg\<rparr> # requests c))"
proof (cases opts)
  case None
  with assms show ?thesis
    by (simp add: vcallf_body_def Let_def split: prod.splits option.splits if_splits)
next
  case (Some opt)
  show ?thesis
  proof (cases rule: vcallf_body_cases [OF assms [unfolded Some]])
    case (1 ident c0 w0 wa result c1 w1 t1)
    have io: "io_ok c0 c1 t1"
      using "1"(2) by (cases "opts_broadcast opt") (auto dest: dispatch_frame_io broadcast_loop_io)
    then have tk: "requests c1 = requests c0" "next_id c1 = next_id c0" "quiet t1"
      by (simp_all add: io_ok_def tables_kept_def)
    from "1"(3) tk get_id_keeps [OF "1"(1)] show ?thesis
      by (auto split: option.splits if_splits simp add: quiet_no_result_cb)
  qed
qed

lemma vcallf_body_registers:
  assumes "vcallf_body env c meth (Some cb) cb_arg opts args w = Inr (True, c', w', t)"
  shows "requests c' = \<lparr>sri_id = next_id c', sri_cb = cb, sri_cb_arg = cb_arg\<rparr> # requests c"
proof (cases opts)
  case None
  with assms show ?thesis
    by (simp add: vcallf_body_def Let_def split: prod.splits option.splits if_splits)
next
  case (Some opt)
  show ?thesis
  proof (cases rule: vcallf_body_cases [OF assms [unfolded Some]])
    case (1 ident c0 w0 wa result c1 w1 t1)
    have io: "io_ok c0 c1 t1"
      using "1"(2) by (cases "opts_broadcast opt") (auto dest: dispatch_frame_io broadcast_loop_io)
    then have tk: "requests c1 = requests c0" "next_id c1 = next_id c0"
      by (simp_all add: io_ok_def tables_kept_def)
    from "1"(3) have "result" "c' = c1\<lparr>requests := \<lparr>sri_id = ident, sri_cb = cb, sri_cb_arg = cb_arg\<rparr> # requests c1\<rparr>"
      by (auto split: if_splits)
    with tk get_id_keeps [OF "1"(1)] show ?thesis by simp
  qed
qed

lemma vcallf_body_null_cb_false:
  assumes "vcallf_body env c meth None cb_arg opts args w = Inr (ok, c', w', t)"
  shows "\<not> ok"
proof (cases opts)
  case None
  with assms show ?thesis
    by (simp add: vcallf_body_def Let_def split: prod.splits option.splits if_splits)
next
  case (Some opt)
  show ?thesis
    by (cases rule: vcallf_body_cases [OF assms [unfolded Some]]) simp
qed

text \<open>
  Claim C1, amended. A call with a callback that returns true has put its record, with
  the new id, at the head of the pending requests; if that id is not 0, handling a
  response with this id then calls the callback exactly once, with the result, the error
  code and the error message, and removes the record. In any state, a response with an
  id other than 0 completes the first pending request with this id (one callback, that
  record removed) and, when no pending request has the id, calls nothing, changes
  nothing and succeeds. A response with id 0 is rejected. Until then a record stays:
  a channel event either leaves the pending requests alone and calls no result callback
  or completes one request, and calls, responses and errors sent remove no record and
  call no result callback.
\<close>

theorem response_completes_first_pending_request:
  "(vcallf_body env c meth (Some cb) cb_arg opts args w = Inr (True, c', w', t) \<longrightarrow>
      requests c' = \<lparr>sri_id = next_id c', sri_cb = cb, sri_cb_arg = cb_arg\<rparr> # requests c \<and>
      (next_id c' \<noteq> 0 \<longrightarrow>
         mg_rpc_handle_response c' (next_id c') res ec em =
           (True, c'\<lparr>requests := requests c\<rparr>, [ResultCb cb cb_arg res ec em]))) \<and>
   (ident \<noteq> 0 \<and> find (\<lambda>r. sri_id r = ident) (requests s) = Some ri \<longrightarrow>
      mg_rpc_handle_response s ident res ec em =
        (True, s\<lparr>requests := remove1 ri (requests s)\<rparr>,
         [ResultCb (sri_cb ri) (sri_cb_arg ri) res ec em])) \<and>
   (ident \<noteq> 0 \<and> find (\<lambda>r. sri_id r = ident) (requests s) = None \<longrightarrow>
      mg_rpc_handle_response s ident res ec em = (True, s, [])) \<and>
   mg_rpc_handle_response s 0 res ec em = (False, s, [LogError ''Response without an ID'']) \<and>
   (mg_rpc_ev_handler env s ch ev v = (s1, v1, t1) \<longrightarrow>
      requests s1 = requests s \<and> \<not> list_ex is_result_cb t1 \<or> one_completed s s1 t1) \<and>
   (vcallf_body env s meth2 cb2 cb_arg2 opts2 args2 v = Inr (ok2, s2, v2, t2) \<longrightarrow>
      \<not> list_ex is_result_cb t2 \<and>
      (requests s2 = requests s \<or>
       (\<exists>f. cb2 = Some f \<and> ok2 \<and>
          requests s2 = \<lparr>sri_id = next_id s2, sri_cb = f, sri_cb_arg = cb_arg2\<rparr> # requests s))) \<and>
   (mg_rpc_send_responsef env s rinfo rjson v = (ok3, s3, v3, t3) \<longrightarrow>
      requests s3 = requests s \<and> \<not> list_ex is_result_cb t3) \<and>
   (send_errorf env s rinfo code msg v = (ok4, s4, v4, t4) \<longrightarrow>
      requests s4 = requests s \<and> \<not> list_ex is_result_cb t4)"
proof (intro conjI impI)
  assume a: "vcallf_body env c meth (Some cb) cb_arg opts args w = Inr (True, c', w', t)"
  from vcallf_body_registers [OF a]
  show r: "requests c' = \<lparr>sri_id = next_id c', sri_cb = cb, sri_cb_arg = cb_arg\<rparr> # requests c" .
  assume "next_id c' \<noteq> 0"
  with r show "mg_rpc_handle_response c' (next_id c') res ec em =
           (True, c'\<lparr>requests := requests c\<rparr>, [ResultCb cb cb_arg res ec em])"
    by (simp add: mg_rpc_handle_response_def)
next
  assume "mg_rpc_ev_handler env s ch ev v = (s1, v1, t1)"
  then show "requests s1 = requests s \<and> \<not> list_ex is_result_cb t1 \<or> one_completed s s1 t1"
    by (rule ev_handler_requests)
next
  assume b: "vcallf_body env s meth2 cb2 cb_arg2 opts2 args2 v = Inr (ok2, s2, v2, t2)"
  from vcallf_body_requests [OF b]
  show "\<not> list_ex is_result_cb t2"
    and "requests s2 = requests s \<or>
       (\<exists>f. cb2 = Some f \<and> ok2 \<and>
          requests s2 = \<lparr>sri_id = next_id s2, sri_cb = f, sri_cb_arg = cb_arg2\<rparr> # requests s)"
    by blast+
next
  assume "mg_rpc_send_responsef env s rinfo rjson v = (ok3, s3, v3, t3)"
  from send_responsef_io [OF this]
  show "requests s3 = requests s" and "\<not> list_ex is_result_cb t3"
    by (simp_all add: io_ok_def tables_kept_def quiet_no_result_cb)
next
  assume "send_errorf env s rinfo code msg v = (ok4, s4, v4, t4)"
  from send_errorf_io [OF this]
  show "requests s4 = requests s" and "\<not> list_ex is_result_cb t4"
    by (simp_all add: io_ok_def tables_kept_def quiet_no_result_cb)
qed (simp_all add: mg_rpc_handle_response_def)

theorem response_completes_first_pending_request_witness:
  "\<not> isl first_call \<and> fst (projr first_call) \<and>
   next_id (fst (snd (projr first_call))) = 5 \<and>
   requests (fst (snd (projr first_call))) = [\<lparr>sri_id = 5, sri_cb = 42, sri_cb_arg = 0\<rparr>] \<and>
   snd (snd (mg_rpc_handle_response (fst (snd (projr first_call))) 5 ''{}'' 0 [])) =
     [ResultCb 42 0 ''{}'' 0 []] \<and>
   requests (fst (snd (mg_rpc_handle_response (fst (snd (projr first_call))) 5 ''{}'' 0 []))) = [] \<and>
   mg_rpc_handle_response test_rpc 9 ''{}'' 0 [] = (True, test_rpc, [])"
proof -
  have e: "\<exists>c w t. first_call = Inr (True, c, w, t) \<and> next_id c = 5"
    by (simp add: eval_defs2)
  then obtain c w t where f: "first_call = Inr (True, c, w, t)" and n: "next_id c = 5"
    by blast
  have g: "requests test_rpc = []" by (simp add: eval_defs)
  from response_completes_first_pending_request
         [where env = test_env and c = test_rpc and meth = "''Foo''" and cb = 42 and cb_arg = 0
            and opts = "Some test_opts" and args = None and w = test_world50 and c' = c and w' = w
            and t = t and res = "''{}''" and ec = 0 and em = "[]" and ident = 9 and s = test_rpc]
       f [unfolded first_call_def] n g
  show ?thesis by (simp add: f mg_rpc_handle_response_def)
qed

text \<open>
  Claim C1 as stated fails in two ways, both because ids are sums of \<open>rand()\<close> results.
  When \<open>rand()\<close> returns 0 on a fresh multiplexer, the request gets id 0 and the response
  with id 0 is rejected: no callback, the record stays. When \<open>rand()\<close> returns 0 for the
  second of two calls, both requests have the same id, and the response with this id
  calls the callback of the second call only; the first request stays pending.
\<close>

theorem response_to_request_with_id_zero_counterexample:
  "\<not> isl call_with_zero_id \<and> fst (projr call_with_zero_id) \<and>
   requests (fst (snd (projr call_with_zero_id))) = [\<lparr>sri_id = 0, sri_cb = 42, sri_cb_arg = 0\<rparr>] \<and>
   mg_rpc_handle_response (fst (snd (projr call_with_zero_id))) 0 ''{}'' 0 [] =
     (False, fst (snd (projr call_with_zero_id)), [LogError ''Response without an ID'']) \<and>
   \<not> isl second_call \<and> fst (projr second_call) \<and>
   requests (fst (snd (projr second_call))) =
     [\<lparr>sri_id = 5, sri_cb = 43, sri_cb_arg = 0\<rparr>, \<lparr>sri_id = 5, sri_cb = 42, sri_cb_arg = 0\<rparr>] \<and>
   snd (snd (mg_rpc_handle_response (fst (snd (projr second_call))) 5 ''{}'' 0 [])) =
     [ResultCb 43 0 ''{}'' 0 []] \<and>
   requests (fst (snd (mg_rpc_handle_response (fst (snd (projr second_call))) 5 ''{}'' 0 []))) =
     [\<lparr>sri_id = 5, sri_cb = 42, sri_cb_arg = 0\<rparr>]"
proof -
  have z: "\<exists>c w t. call_with_zero_id = Inr (True, c, w, t) \<and>
             requests c = [\<lparr>sri_id = 0, sri_cb = 42, sri_cb_arg = 0\<rparr>]"
    by (simp add: eval_defs2)
  have s: "\<exists>c w t. second_call = Inr (True, c, w, t) \<and>
             requests c = [\<lparr>sri_id = 5, sri_cb = 43, sri_cb_arg = 0\<rparr>, \<lparr>sri_id = 5, sri_cb = 42, sri_cb_arg = 0\<rparr>]"
    by (simp add: eval_defs2)
  from z obtain c1 w1 t1 where z1: "call_with_zero_id = Inr (True, c1, w1, t1)"
    and z2: "requests c1 = [\<lparr>sri_id = 0, sri_cb = 42, sri_cb_arg = 0\<rparr>]"
    by blast
  from s obtain c2 w2 t2 where s1: "second_call = Inr (True, c2, w2, t2)"
    and s2: "requests c2 = [\<lparr>sri_id = 5, sri_cb = 43, sri_cb_arg = 0\<rparr>, \<lparr>sri_id = 5, sri_cb = 42, sri_cb_arg = 0\<rparr>]"
    by blast
  from z2 s2 show ?thesis
    by (simp add: z1 s1 mg_rpc_handle_response_def)
qed

text \<open>
  Claim C3 fails on the code. A call without a callback on an open, idle channel hands
  its frame, with the no-response marker, to the transport, marks the channel busy and
  registers nothing, as the claim says; but it returns false.
\<close>

theorem call_without_callback_returns_false_after_send:
  "\<not> isl call_without_callback \<and> \<not> fst (projr call_without_callback) \<and>
   snd (snd (snd (projr call_without_callback))) =
     [SendFrame 1 ''{\"id\":7,\"src\":\"me\",\"nr\":true,\"method\":\"Foo\"}'' True] \<and>
   is_busy (ci_mem (fst (snd (projr call_without_callback))) 10) \<and>
   requests (fst (snd (projr call_without_callback))) = []"
proof -
  have "\<exists>c w. call_without_callback =
          Inr (False, c, w, [SendFrame 1 ''{\"id\":7,\"src\":\"me\",\"nr\":true,\"method\":\"Foo\"}'' True]) \<and>
          is_busy (ci_mem c 10) \<and> requests c = []"
    by (simp add: eval_defs2)
  then obtain c w where eq: "call_without_callback =
          Inr (False, c, w, [SendFrame 1 ''{\"id\":7,\"src\":\"me\",\"nr\":true,\"method\":\"Foo\"}'' True])"
    and rest: "is_busy (ci_mem c 10)" "requests c = []"
    by blast
  from rest show ?thesis by (simp add: eq)
qed

text \<open>
  The faults sit at the allocations of the state functions: a channel entry is made, and
  a queue entry appended, exactly where the fault functions ask \<open>calloc\<close>; the calls of
  the broadcast loop allocate nothing.
\<close>

lemma enqueue_frame_fault_iff:
  "enqueue_frame_fault env c w = Some e \<longleftrightarrow>
     fst (mg_rpc_enqueue_frame c ci dst f) \<and> fst (env_calloc env w) = 0 \<and>
     e = NullPointerDereference ''qe''"
  by (auto simp add: enqueue_frame_fault_def mg_rpc_enqueue_frame_def)

lemma by_dst_fault_iff:
  "by_dst_fault env c dst w = Some e \<longleftrightarrow>
     e = NullPointerDereference ''ci'' \<and>
     (\<exists>ch d c1 w1. mg_rpc_get_channel_info_internal_by_dst env c dst w =
                      (Some 0, d, c1, w1, [ChConnect ch]))"
  by (auto simp add: by_dst_fault_def mg_rpc_get_channel_info_internal_by_dst_def
        add_channel_internal_fault_def mg_rpc_add_channel_internal_def Let_def
      split: sum.splits option.splits prod.splits if_splits)

lemma dispatch_frame_fault_given:
  "dispatch_frame_fault env c src dst ident tag key (Some p) False pp payload w = None"
  by (simp add: dispatch_frame_fault_def Let_def split: prod.splits)

lemma vcallf_wrappers:
  "mg_rpc_vcallf env None meth cb cb_arg opts args w = Inr (False, None, w, []) \<and>
   mg_rpc_callf env m meth cb cb_arg opts args w = mg_rpc_vcallf env m meth cb cb_arg opts args w \<and>
   (mg_rpc_vcallf env (Some c) meth cb cb_arg opts args w = Inl e \<longleftrightarrow>
      vcallf_body env c meth cb cb_arg opts args w = Inl e)"
  by (simp add: mg_rpc_vcallf_def mg_rpc_callf_def split: sum.splits)

lemma vcallf_body_null_opts:
  assumes "mg_rpc_get_id env c w = (ident, c0, w0)"
  shows "vcallf_body env c meth cb cb_arg None args w =
           Inl (NullPointerDereference
                  (if cb \<noteq> None \<and> fst (env_calloc env w0) = 0 then ''ri'' else ''opts''))"
proof (cases cb)
  case None
  with assms show ?thesis by (simp add: vcallf_body_def Let_def)
next
  case (Some f)
  obtain p w2 where al: "env_calloc env w0 = (p, w2)" by (cases "env_calloc env w0")
  with assms Some show ?thesis by (simp add: vcallf_body_def Let_def)
qed

lemma vcallf_body_some_opts:
  assumes "mg_rpc_get_id env c w = (ident, c0, w0)"
    and "wa = (if cb = None then w0 else snd (env_calloc env w0))"
    and "src = (if opts_src opt = [] then c_str (cfg_id (cfg c0)) else opts_src opt)"
    and "pprefix = call_prefix env (cb \<noteq> None) meth (args \<noteq> None)"
  shows "vcallf_body env c meth cb cb_arg (Some opt) args w =
           (if cb \<noteq> None \<and> fst (env_calloc env w0) = 0 then Inl (NullPointerDereference ''ri'')
            else case (if \<not> opts_broadcast opt
                       then dispatch_frame_fault env c0 src (opts_dst opt) ident (opts_tag opt)
                              (opts_key opt) None (\<not> opts_no_queue opt) pprefix args wa
                       else None) of
                   Some e \<Rightarrow> Inl e
                 | None \<Rightarrow>
                     (case (if \<not> opts_broadcast opt
                            then mg_rpc_dispatch_frame env c0 src (opts_dst opt) ident (opts_tag opt)
                                   (opts_key opt) None (\<not> opts_no_queue opt) pprefix args wa
                            else broadcast_loop env (channels c0) src (opts_dst opt) ident
                                   (opts_tag opt) (opts_key opt) pprefix args False c0 wa) of
                        (result, c1, w1, t1) \<Rightarrow>
                          Inr (case cb of
                                 Some f \<Rightarrow>
                                   if result
                                   then (True, c1\<lparr>requests := \<lparr>sri_id = ident, sri_cb = f, sri_cb_arg = cb_arg\<rparr> # requests c1\<rparr>, w1, t1)
                                   else (False, c1, w1, t1)
                               | None \<Rightarrow> (False, c1, w1, t1))))"
proof (cases cb)
  case None
  with assms show ?thesis
    by (simp add: vcallf_body_def Let_def if_nonempty split: option.splits prod.splits)
next
  case (Some f)
  obtain p w2 where al: "env_calloc env w0 = (p, w2)" by (cases "env_calloc env w0")
  with assms Some show ?thesis
    by (simp add: vcallf_body_def Let_def if_nonempty split: option.splits prod.splits)
qed

text \<open>
  Claim C9, amended. With a \<open>NULL\<close> multiplexer \<open>mg_rpc_vcallf\<close> and \<open>mg_rpc_callf\<close>
  return false before they read anything, whatever \<open>opts\<close> is. With a multiplexer that
  is not \<open>NULL\<close>, a \<open>NULL\<close> \<open>opts\<close> is never safe: the guarded reads of \<open>dst\<close>, \<open>tag\<close> and
  \<open>key\<close> pass, and the call ends at \<open>opts->src\<close>, unless there is a callback and
  \<open>calloc\<close> returned \<open>NULL\<close>, when it has ended at \<open>ri->id\<close> before. With \<open>opts\<close> not
  \<open>NULL\<close> no read of \<open>opts\<close> fails, and the guarded reads agree with the unguarded ones:
  the frame is dispatched with the \<open>dst\<close>, \<open>tag\<close> and \<open>key\<close> of \<open>opts\<close>, and queued only
  if \<open>no_queue\<close> is false. The call then ends in a null dereference exactly when an
  allocation on its way returns \<open>NULL\<close>: that of the request record, when there is a
  callback, or, in a call that is not a broadcast, that of the channel entry made for a
  destination URI or that of the queue entry. Otherwise it returns, with the result of
  the dispatch.
\<close>

theorem vcallf_dereferences_opts:
  "mg_rpc_vcallf env None meth cb cb_arg opts args w = Inr (False, None, w, []) \<and>
   mg_rpc_callf env m meth cb cb_arg opts args w = mg_rpc_vcallf env m meth cb cb_arg opts args w \<and>
   (mg_rpc_vcallf env (Some c) meth cb cb_arg opts args w = Inl e \<longleftrightarrow>
      vcallf_body env c meth cb cb_arg opts args w = Inl e) \<and>
   (let (ident, c0, w0) = mg_rpc_get_id env c w;
        no_ri = (cb \<noteq> None \<and> fst (env_calloc env w0) = 0);
        wa = (if cb = None then w0 else snd (env_calloc env w0));
        src = (if opts_src opt = [] then c_str (cfg_id (cfg c0)) else opts_src opt);
        pprefix = call_prefix env (cb \<noteq> None) meth (args \<noteq> None);
        fault = (if opts_broadcast opt then None
                 else dispatch_frame_fault env c0 src (opts_dst opt) ident (opts_tag opt)
                        (opts_key opt) None (\<not> opts_no_queue opt) pprefix args wa);
        (result, c1, w1, t1) =
          (if opts_broadcast opt
           then broadcast_loop env (channels c0) src (opts_dst opt) ident (opts_tag opt)
                  (opts_key opt) pprefix args False c0 wa
           else mg_rpc_dispatch_frame env c0 src (opts_dst opt) ident (opts_tag opt)
                  (opts_key opt) None (\<not> opts_no_queue opt) pprefix args wa)
    in vcallf_body env c meth cb cb_arg None args w =
         Inl (NullPointerDereference (if no_ri then ''ri'' else ''opts'')) \<and>
       vcallf_body env c meth cb cb_arg (Some opt) args w \<noteq> Inl (NullPointerDereference ''opts'') \<and>
       (vcallf_body env c meth cb cb_arg (Some opt) args w = Inl e \<longleftrightarrow>
          (if no_ri then e = NullPointerDereference ''ri'' else fault = Some e)) \<and>
       (\<not> no_ri \<and> fault = None \<longrightarrow>
          vcallf_body env c meth cb cb_arg (Some opt) args w =
            Inr (case cb of
                   Some f \<Rightarrow>
                     if result
                     then (True, c1\<lparr>requests := \<lparr>sri_id = ident, sri_cb = f, sri_cb_arg = cb_arg\<rparr> # requests c1\<rparr>, w1, t1)
                     else (False, c1, w1, t1)
                 | None \<Rightarrow> (False, c1, w1, t1))))"
proof -
  obtain ident c0 w0 where g: "mg_rpc_get_id env c w = (ident, c0, w0)"
    by (metis prod_cases3)
  define wa where "wa = (if cb = None then w0 else snd (env_calloc env w0))"
  define src where "src = (if opts_src opt = [] then c_str (cfg_id (cfg c0)) else opts_src opt)"
  define pprefix where "pprefix = call_prefix env (cb \<noteq> None) meth (args \<noteq> None)"
  note s = vcallf_body_some_opts [OF g wa_def src_def pprefix_def]
  have ne: "e' \<noteq> NullPointerDereference ''opts''"
    if "dispatch_frame_fault env c0 src (opts_dst opt) ident (opts_tag opt)
          (opts_key opt) None (\<not> opts_no_queue opt) pprefix args wa = Some e'" for e'
    using that
    by (auto simp add: dispatch_frame_fault_def by_dst_fault_def add_channel_internal_fault_def
          enqueue_frame_fault_def Let_def split: option.splits sum.splits prod.splits if_splits)
  have a: "vcallf_body env c meth cb cb_arg (Some opt) args w \<noteq> Inl (NullPointerDereference ''opts'')"
    using ne by (auto simp add: s split: option.splits prod.splits)
  have b: "vcallf_body env c meth cb cb_arg (Some opt) args w = Inl e \<longleftrightarrow>
             (if cb \<noteq> None \<and> fst (env_calloc env w0) = 0 then e = NullPointerDereference ''ri''
              else (if opts_broadcast opt then None
                    else dispatch_frame_fault env c0 src (opts_dst opt) ident (opts_tag opt)
                           (opts_key opt) None (\<not> opts_no_queue opt) pprefix args wa) = Some e)"
    by (auto simp add: s split: option.splits prod.splits)
  show ?thesis
    unfolding g Let_def prod.case wa_def [symmetric] src_def [symmetric] pprefix_def [symmetric]
    using vcallf_wrappers [of env meth cb cb_arg opts args w m c e]
      vcallf_body_null_opts [OF g, of meth cb cb_arg args] a b
    by (auto simp add: s split: prod.splits option.splits)
qed

theorem vcallf_dereferences_opts_witness:
  "mg_rpc_callf test_env None ''Foo'' (Some 42) 0 None None test_world7 =
     Inr (False, None, test_world7, []) \<and>
   mg_rpc_callf test_env (Some test_rpc) ''Foo'' (Some 42) 0 None None test_world7 =
     Inl (NullPointerDereference ''opts'') \<and>
   mg_rpc_callf test_env (Some test_rpc) ''Foo'' None 0 None None test_world_null =
     Inl (NullPointerDereference ''opts'') \<and>
   mg_rpc_callf test_env (Some test_rpc) ''Foo'' (Some 42) 0 None None test_world_null =
     Inl (NullPointerDereference ''ri'') \<and>
   \<not> isl (mg_rpc_callf test_env (Some test_rpc) ''Foo'' (Some 42) 0 (Some test_opts) None test_world7) \<and>
   fst (projr (mg_rpc_callf test_env (Some test_rpc) ''Foo'' (Some 42) 0 (Some test_opts) None
                 test_world7)) \<and>
   mg_rpc_callf test_env_null (Some test_rpc) ''Foo'' None 0 (Some test_opts_uri) None test_world7 =
     Inl (NullPointerDereference ''ci'') \<and>
   mg_rpc_callf test_env_null (Some test_rpc_closed) ''Foo'' None 0 (Some test_opts) None test_world7 =
     Inl (NullPointerDereference ''qe'') \<and>
   \<not> isl (mg_rpc_callf test_env_null (Some test_rpc) ''Foo'' None 0 (Some test_opts) None test_world7)"
proof -
  note t = vcallf_dereferences_opts [where env = test_env and meth = "''Foo''" and cb_arg = 0
             and args = None and c = test_rpc and opt = test_opts]
  note n = vcallf_dereferences_opts [where env = test_env_null and meth = "''Foo''" and cb_arg = 0
             and args = None and cb = None and w = test_world7]
  have 1: "mg_rpc_callf test_env None ''Foo'' (Some 42) 0 None None test_world7 =
             Inr (False, None, test_world7, [])"
    using t [where cb = "Some 42" and w = test_world7 and m = None and opts = None] by simp
  have 2: "mg_rpc_callf test_env (Some test_rpc) ''Foo'' (Some 42) 0 None None test_world7 =
             Inl (NullPointerDereference ''opts'')"
    using t [where cb = "Some 42" and w = test_world7 and m = "Some test_rpc" and opts = None
               and e = "NullPointerDereference ''opts''"]
    by (simp add: eval_defs5)
  have 3: "mg_rpc_callf test_env (Some test_rpc) ''Foo'' None 0 None None test_world_null =
             Inl (NullPointerDereference ''opts'')"
    using t [where cb = None and w = test_world_null and m = "Some test_rpc" and opts = None
               and e = "NullPointerDereference ''opts''"]
    by (simp add: eval_defs5)
  have 4: "mg_rpc_callf test_env (Some test_rpc) ''Foo'' (Some 42) 0 None None test_world_null =
             Inl (NullPointerDereference ''ri'')"
    using t [where cb = "Some 42" and w = test_world_null and m = "Some test_rpc" and opts = None
               and e = "NullPointerDereference ''ri''"]
    by (simp add: eval_defs5)
  have 5: "\<not> isl (mg_rpc_callf test_env (Some test_rpc) ''Foo'' (Some 42) 0 (Some test_opts) None test_world7)"
    "fst (projr (mg_rpc_callf test_env (Some test_rpc) ''Foo'' (Some 42) 0 (Some test_opts) None
                 test_world7))"
    by (simp_all add: eval_defs5)
  have 6: "mg_rpc_callf test_env_null (Some test_rpc) ''Foo'' None 0 (Some test_opts_uri) None test_world7 =
             Inl (NullPointerDereference ''ci'')"
    using n [where c = test_rpc and opt = test_opts_uri and m = "Some test_rpc"
               and opts = "Some test_opts_uri" and e = "NullPointerDereference ''ci''"]
    by (simp add: eval_defs5)
  have 7: "mg_rpc_callf test_env_null (Some test_rpc_closed) ''Foo'' None 0 (Some test_opts) None test_world7 =
             Inl (NullPointerDereference ''qe'')"
    using n [where c = test_rpc_closed and opt = test_opts and m = "Some test_rpc_closed"
               and opts = "Some test_opts" and e = "NullPointerDereference ''qe''"]
    by (simp add: eval_defs5)
  have 8: "\<not> isl (mg_rpc_callf test_env_null (Some test_rpc) ''Foo'' None 0 (Some test_opts) None test_world7)"
    by (simp add: eval_defs5)
  from 1 2 3 4 5 6 7 8 show ?thesis by (intro conjI)
qed

text \<open>
  Claim C9 as stated fails in two ways. A call on a \<open>NULL\<close> multiplexer with a \<open>NULL\<close>
  \<open>opts\<close> is safe: it returns false and reads nothing. And \<open>opts\<close> not being \<open>NULL\<close> does
  not make every dereference of \<open>mg_rpc_vcallf\<close> defined: with a callback, when \<open>calloc\<close>
  returns \<open>NULL\<close>, the call writes \<open>ri->id\<close> through it.
\<close>

theorem call_on_null_multiplexer_and_failed_calloc_counterexample:
  "mg_rpc_callf test_env None ''Foo'' (Some 42) 0 None None test_world0 =
     Inr (False, None, test_world0, []) \<and>
   mg_rpc_vcallf test_env None ''Foo'' (Some 42) 0 None None test_world0 =
     Inr (False, None, test_world0, []) \<and>
   mg_rpc_callf test_env (Some test_rpc) ''Foo'' (Some 42) 0 (Some test_opts) None test_world_null =
     Inl (NullPointerDereference ''ri'') \<and>
   mg_rpc_vcallf test_env (Some test_rpc) ''Foo'' (Some 42) 0 (Some test_opts) None test_world_null =
     Inl (NullPointerDereference ''ri'')"
  by (simp add: eval_defs5)

lemma subseq_entries_with: "subseq (entries_with b q oks) q"
proof (induction q arbitrary: oks)
  case Nil
  then show ?case by simp
next
  case (Cons qe q)
  show ?case
  proof (cases oks)
    case Nil
    then show ?thesis by (simp add: entries_with_def)
  next
    case (Cons ok oks')
    with Cons.IH [of oks'] show ?thesis by (auto intro: subseq_Cons')
  qed
qed

text \<open>
  Claim C6. \<open>mg_rpc_process_queue\<close> visits every queue entry once, in queue order. An
  entry is sent on its pinned channel when it has one, otherwise on the channel its
  stored destination resolves to. The queue afterwards holds exactly the entries whose
  send failed, in their old order; the frames the transports accepted are those of the
  other entries, in queue order; and the length counter drops by their number.
\<close>

theorem queue_drain_is_fifo_and_keeps_order:
  assumes "mg_rpc_process_queue env c w = (c', w', t)"
  shows "length (drain_outcomes env 0 (queue c) c w) = length (queue c) \<and>
         queue c' = entries_with False (queue c) (drain_outcomes env 0 (queue c) c w) \<and>
         accepted_frames t =
           map qe_frame (entries_with True (queue c) (drain_outcomes env 0 (queue c) c w)) \<and>
         queue_len c' =
           queue_len c - int (length (entries_with True (queue c) (drain_outcomes env 0 (queue c) c w))) \<and>
         subseq (queue c') (queue c) \<and>
         (\<forall>qe s v p. qe_ci qe = Some p \<longrightarrow>
            process_queue_entry env qe s v = mg_rpc_send_frame env s (Some p) (qe_frame qe) v) \<and>
         (\<forall>qe s v r d s1 v1 t1. qe_ci qe = None \<and>
            mg_rpc_get_channel_info_internal_by_dst env s (qe_dst qe) v = (r, d, s1, v1, t1) \<longrightarrow>
            process_queue_entry env qe s v =
              (case mg_rpc_send_frame env s1 r (qe_frame qe) v1 of
                 (sent, s2, v2, t2) \<Rightarrow> (sent, s2, v2, t1 @ t2)))"
proof -
  from process_queue_loop_props [of env 0 "queue c" c w c' w' t "[]"] assms
  have p: "length (drain_outcomes env 0 (queue c) c w) = length (queue c)"
    "queue c' = entries_with False (queue c) (drain_outcomes env 0 (queue c) c w)"
    "queue_len c' = queue_len c - int (length (entries_with True (queue c) (drain_outcomes env 0 (queue c) c w)))"
    "accepted_frames t = map qe_frame (entries_with True (queue c) (drain_outcomes env 0 (queue c) c w))"
    by (simp_all add: mg_rpc_process_queue_def)
  have s: "subseq (queue c') (queue c)"
    unfolding p(2) by (rule subseq_entries_with)
  have e1: "\<forall>qe s v p. qe_ci qe = Some p \<longrightarrow>
            process_queue_entry env qe s v = mg_rpc_send_frame env s (Some p) (qe_frame qe) v"
    by (simp add: process_queue_entry_def split: prod.splits)
  have e2: "\<forall>qe s v r d s1 v1 t1. qe_ci qe = None \<and>
            mg_rpc_get_channel_info_internal_by_dst env s (qe_dst qe) v = (r, d, s1, v1, t1) \<longrightarrow>
            process_queue_entry env qe s v =
              (case mg_rpc_send_frame env s1 r (qe_frame qe) v1 of
                 (sent, s2, v2, t2) \<Rightarrow> (sent, s2, v2, t1 @ t2))"
    by (simp add: process_queue_entry_def split: prod.splits)
  from p s e1 e2 show ?thesis by (intro conjI)
qed

theorem queue_drain_is_fifo_and_keeps_order_witness:
  "queue (fst (mg_rpc_process_queue test_env test_rpc3 test_world0)) =
     [\<lparr>qe_dst = ''peer'', qe_frame = ''A'', qe_ci = Some 20\<rparr>,
      \<lparr>qe_dst = [], qe_frame = ''C'', qe_ci = Some 10\<rparr>] \<and>
   queue_len (fst (mg_rpc_process_queue test_env test_rpc3 test_world0)) = 2 \<and>
   snd (snd (mg_rpc_process_queue test_env test_rpc3 test_world0)) =
     [SendFrame 2 ''A'' False, SendFrame 1 ''B'' True] \<and>
   drain_outcomes test_env 0 (queue test_rpc3) test_rpc3 test_world0 = [False, True, False]"
proof -
  have d: "drain_outcomes test_env 0 (queue test_rpc3) test_rpc3 test_world0 = [False, True, False]"
    by (simp add: eval_defs3)
  have t: "snd (snd (mg_rpc_process_queue test_env test_rpc3 test_world0)) =
     [SendFrame 2 ''A'' False, SendFrame 1 ''B'' True]"
    by (simp add: eval_defs3)
  have q: "queue test_rpc3 = [\<lparr>qe_dst = ''peer'', qe_frame = ''A'', qe_ci = Some 20\<rparr>,
                  \<lparr>qe_dst = [], qe_frame = ''B'', qe_ci = None\<rparr>,
                  \<lparr>qe_dst = [], qe_frame = ''C'', qe_ci = Some 10\<rparr>]" "queue_len test_rpc3 = 3"
    by (simp_all add: test_rpc3_def)
  obtain c' w' t' where e: "mg_rpc_process_queue test_env test_rpc3 test_world0 = (c', w', t')"
    by (metis prod_cases3)
  from queue_drain_is_fifo_and_keeps_order [OF e] d t q e show ?thesis
    by simp
qed

text \<open>
  Claim C7. After a \<open>CLOSED\<close> event for a registered channel, the entry is still in the
  channel list exactly when the transport says it is persistent. Then the list and the
  queue are unchanged. Otherwise the entry is unlinked, exactly the queue entries pinned
  to it are removed (and counted off), and the transport is destroyed. In both cases the
  entry's open and busy flags are false afterwards.
\<close>

theorem closed_channel_stays_iff_persistent:
  assumes "find (\<lambda>p. ci_ch (ci_mem c p) = ch) (channels c) = Some ci"
    and "mg_rpc_ev_handler env c ch MG_RPC_CHANNEL_CLOSED w = (c', w', t)"
  shows "(ci \<in> set (channels c') \<longleftrightarrow> env_is_persistent env w ch) \<and>
         (env_is_persistent env w ch \<longrightarrow>
            channels c' = channels c \<and> queue c' = queue c \<and> queue_len c' = queue_len c) \<and>
         (\<not> env_is_persistent env w ch \<longrightarrow>
            channels c' = removeAll ci (channels c) \<and>
            queue c' = filter (\<lambda>qe. qe_ci qe \<noteq> Some ci) (queue c) \<and>
            queue_len c' = queue_len c - int (length (filter (\<lambda>qe. qe_ci qe = Some ci) (queue c))) \<and>
            ChDestroy ch \<in> set t) \<and>
         \<not> is_open (ci_mem c' ci) \<and> \<not> is_busy (ci_mem c' ci)"
proof -
  let ?c1 = "ci_update c ci (\<lambda>e. e\<lparr>is_open := False, is_busy := False\<rparr>)"
  let ?c2 = "purge_queue_loop ci 0 (queue ?c1) ?c1"
  from assms(1) have mem: "ci \<in> set (channels c)"
    by (auto simp add: find_Some_iff)
  from purge_queue_loop_props [of ?c1 "[]" "queue ?c1" 0 ci]
  have pq: "queue ?c2 = filter (\<lambda>qe. qe_ci qe \<noteq> Some ci) (queue c)"
    "queue_len ?c2 = queue_len c - int (length (filter (\<lambda>qe. qe_ci qe = Some ci) (queue c)))"
    "channels ?c2 = channels c" "ci_mem ?c2 = ci_mem ?c1"
    by simp_all
  show ?thesis
  proof (cases "env_is_persistent env w ch")
    case True
    with assms have "c' = ?c1" by (simp add: mg_rpc_ev_handler_def Let_def)
    with True mem show ?thesis by simp
  next
    case False
    with assms have c': "c' = ci_update (?c2\<lparr>channels := removeAll ci (channels ?c2)\<rparr>) ci (\<lambda>e. zero_ci)"
      and t: "ChDestroy ch \<in> set t"
      by (auto simp add: mg_rpc_ev_handler_def Let_def)
    from False pq t show ?thesis unfolding c' by (simp add: zero_ci_def)
  qed
qed

theorem closed_channel_stays_iff_persistent_witness:
  "find (\<lambda>p. ci_ch (ci_mem test_rpc3 p) = 2) (channels test_rpc3) = Some 20 \<and>
   \<not> env_is_persistent test_env test_world0 2 \<and>
   channels (fst (mg_rpc_ev_handler test_env test_rpc3 2 MG_RPC_CHANNEL_CLOSED test_world0)) = [10] \<and>
   queue (fst (mg_rpc_ev_handler test_env test_rpc3 2 MG_RPC_CHANNEL_CLOSED test_world0)) =
     [\<lparr>qe_dst = [], qe_frame = ''B'', qe_ci = None\<rparr>,
      \<lparr>qe_dst = [], qe_frame = ''C'', qe_ci = Some 10\<rparr>] \<and>
   find (\<lambda>p. ci_ch (ci_mem test_rpc3 p) = 1) (channels test_rpc3) = Some 10 \<and>
   env_is_persistent test_env test_world0 1 \<and>
   channels (fst (mg_rpc_ev_handler test_env test_rpc3 1 MG_RPC_CHANNEL_CLOSED test_world0)) = [20, 10]"
proof -
  have a: "find (\<lambda>p. ci_ch (ci_mem test_rpc3 p) = 2) (channels test_rpc3) = Some 20"
    "find (\<lambda>p. ci_ch (ci_mem test_rpc3 p) = 1) (channels test_rpc3) = Some 10"
    by (simp_all add: test_rpc3_def)
  have b: "\<not> env_is_persistent test_env test_world0 2" "env_is_persistent test_env test_world0 1"
    by (simp_all add: test_env_def)
  have q: "queue test_rpc3 = [\<lparr>qe_dst = ''peer'', qe_frame = ''A'', qe_ci = Some 20\<rparr>,
                  \<lparr>qe_dst = [], qe_frame = ''B'', qe_ci = None\<rparr>,
                  \<lparr>qe_dst = [], qe_frame = ''C'', qe_ci = Some 10\<rparr>]" "channels test_rpc3 = [20, 10]"
    by (simp_all add: test_rpc3_def)
  obtain c2 w2 t2 where e2: "mg_rpc_ev_handler test_env test_rpc3 2 MG_RPC_CHANNEL_CLOSED test_world0 = (c2, w2, t2)"
    by (metis prod_cases3)
  obtain c1 w1 t1 where e1: "mg_rpc_ev_handler test_env test_rpc3 1 MG_RPC_CHANNEL_CLOSED test_world0 = (c1, w1, t1)"
    by (metis prod_cases3)
  from closed_channel_stays_iff_persistent [OF a(1) e2] closed_channel_stays_iff_persistent [OF a(2) e1]
    a b q e1 e2
  show ?thesis by simp
qed

lemma reachable_vcallf_projr:
  assumes "reachable env config c"
    and "\<not> isl (vcallf_body env c meth cb cb_arg opts args w)"
  shows "reachable env config (fst (snd (projr (vcallf_body env c meth cb cb_arg opts args w))))"
proof -
  from assms(2) obtain b c' w' t where
    eq: "vcallf_body env c meth cb cb_arg opts args w = Inr (b, c', w', t)"
    by (cases "vcallf_body env c meth cb cb_arg opts args w") auto
  from r_vcallf [OF assms(1) eq] eq show ?thesis by simp
qed

lemma reachable_ev_handler_fst:
  assumes "reachable env config c"
  shows "reachable env config (fst (mg_rpc_ev_handler env c ch ev w))"
  by (cases "mg_rpc_ev_handler env c ch ev w") (auto intro: r_ev_handler [OF assms])

lemma send_frame_sets_busy_only_when_open:
  assumes "mg_rpc_send_frame env c ci f w = (ok, c', w', t)"
    and "is_busy (ci_mem c' p)" "\<not> is_busy (ci_mem c p)"
  shows "ok \<and> ci = Some p \<and> is_open (ci_mem c p)"
  using send_frame_cases [OF assms(1)] assms(2,3)
  by (auto simp add: ci_update_def split: if_splits)

text \<open>
  Claim C4. In every reachable state every listed channel entry that is busy is open.
  Channel events, queue drains and sends from such a state lead to states where this
  holds again, and a send sets the busy flag of an entry only when it succeeded on that
  entry and found it open.
\<close>

theorem busy_channel_entry_is_open:
  assumes "reachable env config c"
  shows "(\<forall>p \<in> set (channels c). is_busy (ci_mem c p) \<longrightarrow> is_open (ci_mem c p)) \<and>
         (\<forall>ch ev w c' w' t. mg_rpc_ev_handler env c ch ev w = (c', w', t) \<longrightarrow>
            (\<forall>p \<in> set (channels c'). is_busy (ci_mem c' p) \<longrightarrow> is_open (ci_mem c' p))) \<and>
         (\<forall>w c' w' t. mg_rpc_process_queue env c w = (c', w', t) \<longrightarrow>
            (\<forall>p \<in> set (channels c'). is_busy (ci_mem c' p) \<longrightarrow> is_open (ci_mem c' p))) \<and>
         (\<forall>ci f w ok c' w' t. mg_rpc_send_frame env c ci f w = (ok, c', w', t) \<longrightarrow>
            (\<forall>p \<in> set (channels c'). is_busy (ci_mem c' p) \<longrightarrow> is_open (ci_mem c' p)) \<and>
            (\<forall>p. is_busy (ci_mem c' p) \<and> \<not> is_busy (ci_mem c p) \<longrightarrow>
               ok \<and> ci = Some p \<and> is_open (ci_mem c p)))"
proof -
  from reachable_keeps [OF assms] have b: "busy_implies_open c" by simp
  have 1: "\<forall>p \<in> set (channels c). is_busy (ci_mem c p) \<longrightarrow> is_open (ci_mem c p)"
    using b by (simp add: busy_implies_open_def list_all_iff)
  have 2: "\<forall>ch ev w c' w' t. mg_rpc_ev_handler env c ch ev w = (c', w', t) \<longrightarrow>
            (\<forall>p \<in> set (channels c'). is_busy (ci_mem c' p) \<longrightarrow> is_open (ci_mem c' p))"
  proof (intro allI impI)
    fix ch ev w c' w' t
    assume "mg_rpc_ev_handler env c ch ev w = (c', w', t)"
    from ev_handler_keeps [OF this] b have "busy_implies_open c'"
      by (simp add: keeps_invariants_def)
    then show "\<forall>p \<in> set (channels c'). is_busy (ci_mem c' p) \<longrightarrow> is_open (ci_mem c' p)"
      by (simp add: busy_implies_open_def list_all_iff)
  qed
  have 3: "\<forall>w c' w' t. mg_rpc_process_queue env c w = (c', w', t) \<longrightarrow>
            (\<forall>p \<in> set (channels c'). is_busy (ci_mem c' p) \<longrightarrow> is_open (ci_mem c' p))"
  proof (intro allI impI)
    fix w c' w' t
    assume "mg_rpc_process_queue env c w = (c', w', t)"
    from io_ok_keeps [OF process_queue_io [OF this]] b have "busy_implies_open c'"
      by (simp add: keeps_invariants_def)
    then show "\<forall>p \<in> set (channels c'). is_busy (ci_mem c' p) \<longrightarrow> is_open (ci_mem c' p)"
      by (simp add: busy_implies_open_def list_all_iff)
  qed
  have 4: "\<forall>ci f w ok c' w' t. mg_rpc_send_frame env c ci f w = (ok, c', w', t) \<longrightarrow>
            (\<forall>p \<in> set (channels c'). is_busy (ci_mem c' p) \<longrightarrow> is_open (ci_mem c' p)) \<and>
            (\<forall>p. is_busy (ci_mem c' p) \<and> \<not> is_busy (ci_mem c p) \<longrightarrow>
               ok \<and> ci = Some p \<and> is_open (ci_mem c p))"
  proof (intro allI impI conjI)
    fix ci f w ok c' w' t
    assume s: "mg_rpc_send_frame env c ci f w = (ok, c', w', t)"
    from send_frame_busy [OF s b]
    show "\<forall>p \<in> set (channels c'). is_busy (ci_mem c' p) \<longrightarrow> is_open (ci_mem c' p)"
      by (simp add: busy_implies_open_def list_all_iff)
    fix p
    assume "is_busy (ci_mem c' p) \<and> \<not> is_busy (ci_mem c p)"
    with send_frame_sets_busy_only_when_open [OF s, of p]
    show "ok" "ci = Some p" "is_open (ci_mem c p)" by simp_all
  qed
  from 1 2 3 4 show ?thesis by (intro conjI)
qed

theorem busy_channel_entry_is_open_witness:
  "channels (fst (snd (projr run_open_call))) = [100] \<and>
   is_busy (ci_mem (fst (snd (projr run_open_call))) 100) \<and>
   is_open (ci_mem (fst (snd (projr run_open_call))) 100)"
proof -
  have r0: "reachable test_env test_cfg (mg_rpc_create test_cfg (\<lambda>p. zero_ci))"
    by (rule r_create)
  have r1: "reachable test_env test_cfg (fst run_added)"
    unfolding run_added_def by (rule r_add_channel [OF r0]) (rule surjective_pairing)
  have r2: "reachable test_env test_cfg (fst run_open)"
    unfolding run_open_def by (rule reachable_ev_handler_fst [OF r1])
  have r3: "reachable test_env test_cfg (fst (snd (projr run_open_call)))"
    unfolding run_open_call_def by (rule reachable_vcallf_projr [OF r2]) (simp add: eval_defs4 test_world7_def)
  have e: "channels (fst (snd (projr run_open_call))) = [100]"
    "is_busy (ci_mem (fst (snd (projr run_open_call))) 100)"
    by (simp_all add: eval_defs4 test_world7_def)
  from busy_channel_entry_is_open [OF r3] e show ?thesis by simp
qed

text \<open>
  Claim C5 as stated fails for a negative bound: a multiplexer created with
  \<open>max_queue_length = -1\<close> has an empty queue of length 0, which is above the bound.
\<close>

theorem queue_length_exceeds_negative_bound_counterexample:
  "reachable test_env neg_cfg (mg_rpc_create neg_cfg (\<lambda>p. zero_ci)) \<and>
   queue (mg_rpc_create neg_cfg (\<lambda>p. zero_ci)) = [] \<and>
   queue_len (mg_rpc_create neg_cfg (\<lambda>p. zero_ci)) = 0 \<and>
   cfg_max_queue_length (cfg (mg_rpc_create neg_cfg (\<lambda>p. zero_ci))) = - 1 \<and>
   \<not> queue_len (mg_rpc_create neg_cfg (\<lambda>p. zero_ci))
       \<le> cfg_max_queue_length (cfg (mg_rpc_create neg_cfg (\<lambda>p. zero_ci)))"
  by (simp add: r_create create_invariants neg_cfg_def)

text \<open>
  Claim C5, amended. When the configured bound is not negative, in every reachable
  state the length counter is the length of the queue and is at most the bound. An
  enqueue with the counter at or above the bound fails and changes nothing; below it,
  it appends the entry and adds one to the counter. Removing an entry takes one off
  both.
\<close>

theorem queue_length_within_bound:
  assumes "reachable env config c" and "0 \<le> cfg_max_queue_length config"
  shows "cfg c = config \<and> queue_len c = int (length (queue c)) \<and>
         queue_len c \<le> cfg_max_queue_length config \<and>
         (cfg_max_queue_length config \<le> queue_len c \<longrightarrow>
            mg_rpc_enqueue_frame c ci dst f = (False, c)) \<and>
         (queue_len c < cfg_max_queue_length config \<longrightarrow>
            mg_rpc_enqueue_frame c ci dst f =
              (True, c\<lparr>queue := queue c @ [\<lparr>qe_dst = dst, qe_frame = f, qe_ci = ci\<rparr>],
                       queue_len := queue_len c + 1\<rparr>)) \<and>
         (i < length (queue c) \<longrightarrow>
            queue_len (mg_rpc_remove_queue_entry c i) = queue_len c - 1 \<and>
            length (queue (mg_rpc_remove_queue_entry c i)) = length (queue c) - 1)"
proof -
  from reachable_keeps [OF assms(1)] assms(2)
  have "cfg c = config" "queue_bounded c" by simp_all
  then show ?thesis
    by (auto simp add: queue_bounded_def mg_rpc_enqueue_frame_def mg_rpc_remove_queue_entry_def)
qed

theorem queue_length_within_bound_witness:
  "(0::int) \<le> cfg_max_queue_length test_cfg \<and>
   fst (projr run_closed_call1) \<and> fst (projr run_closed_call2) \<and> \<not> fst (projr run_closed_call3) \<and>
   length (queue (fst (snd (projr run_closed_call3)))) = 2 \<and>
   queue_len (fst (snd (projr run_closed_call3))) = 2 \<and>
   cfg_max_queue_length test_cfg = 2"
proof -
  have r0: "reachable test_env test_cfg (mg_rpc_create test_cfg (\<lambda>p. zero_ci))"
    by (rule r_create)
  have r1: "reachable test_env test_cfg (fst run_closed)"
    unfolding run_closed_def by (rule r_add_channel [OF r0]) (rule surjective_pairing)
  have r2: "reachable test_env test_cfg (fst (snd (projr run_closed_call1)))"
    unfolding run_closed_call1_def by (rule reachable_vcallf_projr [OF r1]) (simp add: eval_defs4)
  have r3: "reachable test_env test_cfg (fst (snd (projr run_closed_call2)))"
    unfolding run_closed_call2_def by (rule reachable_vcallf_projr [OF r2]) (simp add: eval_defs4)
  have r4: "reachable test_env test_cfg (fst (snd (projr run_closed_call3)))"
    unfolding run_closed_call3_def by (rule reachable_vcallf_projr [OF r3]) (simp add: eval_defs4)
  have m: "(0::int) \<le> cfg_max_queue_length test_cfg" "cfg_max_queue_length test_cfg = 2"
    by (simp_all add: test_cfg_def)
  have e: "fst (projr run_closed_call1)" "fst (projr run_closed_call2)" "\<not> fst (projr run_closed_call3)"
    "length (queue (fst (snd (projr run_closed_call3)))) = 2"
    by (simp_all add: eval_defs4)
  from queue_length_within_bound [OF r4 m(1)] m e show ?thesis by simp
qed

end
